theory Spec2Isabelle
  imports Complex_Main
begin

section \<open>Python strings and numbers\<close>

text \<open>
  The script \<^verbatim>\<open>transcribe_and_translate_dual_vtt.py\<close> is embedded function by function.
  A Python \<^verbatim>\<open>str\<close> is a \<^typ>\<open>string\<close>; a Python float holding seconds is a \<^typ>\<open>real\<close>
  (exact arithmetic: binary rounding of floats is outside the model); a Python \<^verbatim>\<open>int\<close> is
  an \<^typ>\<open>int\<close> or, where the source only produces non-negative values, a \<^typ>\<open>nat\<close>.
\<close>

abbreviation nl :: char where
  "nl \<equiv> CHR 0x0A"

text \<open>\<^verbatim>\<open>str.isspace\<close> on the ASCII range: TAB, LF, VT, FF, CR, FS, GS, RS, US and the blank.\<close>

definition is_space :: "char \<Rightarrow> bool" where
  "is_space c = (c \<in> set [CHR 0x09, CHR 0x0A, CHR 0x0B, CHR 0x0C, CHR 0x0D,
                            CHR 0x1C, CHR 0x1D, CHR 0x1E, CHR 0x1F, CHR '' ''])"

text \<open>\<^verbatim>\<open>s.strip()\<close>: whitespace removed at both ends.\<close>

definition strip :: "string \<Rightarrow> string" where
  "strip s = rev (dropWhile is_space (rev (dropWhile is_space s)))"

text \<open>\<^verbatim>\<open>s.startswith(p)\<close>.\<close>

definition startswith :: "string \<Rightarrow> string \<Rightarrow> bool" where
  "startswith s p = (take (length p) s = p)"

text \<open>\<^verbatim>\<open>sep.join(xs)\<close>.\<close>

fun py_join :: "string \<Rightarrow> string list \<Rightarrow> string" where
  "py_join sep [] = []"
| "py_join sep [x] = x"
| "py_join sep (x # y # ys) = x @ sep @ py_join sep (y # ys)"

text \<open>\<^verbatim>\<open>d.get(key, '')\<close> on a key that holds a string or is absent.\<close>

definition get_str :: "string option \<Rightarrow> string" where
  "get_str v = (case v of None \<Rightarrow> [] | Some s \<Rightarrow> s)"

definition digit_char :: "nat \<Rightarrow> char" where
  "digit_char d = ''0123456789'' ! d"

text \<open>\<^verbatim>\<open>str(n)\<close> and \<^verbatim>\<open>f"{n}"\<close> for a non-negative integer.\<close>

fun str_nat :: "nat \<Rightarrow> string" where
  "str_nat n = (if n < 10 then [digit_char n] else str_nat (n div 10) @ [digit_char (n mod 10)])"

definition zfill :: "nat \<Rightarrow> string \<Rightarrow> string" where
  "zfill w s = replicate (w - length s) (CHR ''0'') @ s"

text \<open>
  \<^verbatim>\<open>f"{x:0wd}"\<close>: decimal, zero-padded to a minimum width of \<open>w\<close>, the sign (if any)
  counted in the width and written before the zeros.
\<close>

definition format_d :: "nat \<Rightarrow> int \<Rightarrow> string" where
  "format_d w x =
     (if x < 0 then ''-'' @ zfill (w - 1) (str_nat (nat (- x)))
      else zfill w (str_nat (nat x)))"

text \<open>Python 3's \<^verbatim>\<open>round(x)\<close>: the nearest integer, a tie going to the even one.\<close>

definition py_round :: "real \<Rightarrow> int" where
  "py_round x =
     (let f = \<lfloor>x\<rfloor>; d = x - of_int f
      in if d < 1 / 2 then f
         else if 1 / 2 < d then f + 1
         else if even f then f else f + 1)"

section \<open>Timestamp formatters\<close>

definition seconds_to_vtt_timestamp :: "real \<Rightarrow> string" where
  "seconds_to_vtt_timestamp seconds =
     (let ms = py_round ((seconds - of_int \<lfloor>seconds\<rfloor>) * 1000);
          total_seconds = \<lfloor>seconds\<rfloor>;
          s = total_seconds mod 60;
          m = (total_seconds div 60) mod 60;
          h = total_seconds div 3600
      in format_d 2 h @ '':'' @ format_d 2 m @ '':'' @ format_d 2 s @ ''.'' @ format_d 3 ms)"

definition seconds_to_srt_timestamp :: "real \<Rightarrow> string" where
  "seconds_to_srt_timestamp seconds =
     (let ms = py_round ((seconds - of_int \<lfloor>seconds\<rfloor>) * 1000);
          total_seconds = \<lfloor>seconds\<rfloor>;
          s = total_seconds mod 60;
          m = (total_seconds div 60) mod 60;
          h = total_seconds div 3600
      in format_d 2 h @ '':'' @ format_d 2 m @ '':'' @ format_d 2 s @ '','' @ format_d 3 ms)"

text \<open>Reading a field of a timestamp back: used to state what the formatters print.\<close>

definition is_digit :: "char \<Rightarrow> bool" where
  "is_digit c = (c \<in> set ''0123456789'')"

definition digit_val :: "char \<Rightarrow> nat" where
  "digit_val c = of_char c - 48"

definition digits_value :: "string \<Rightarrow> nat" where
  "digits_value s = foldl (\<lambda>a c. 10 * a + digit_val c) 0 s"

section \<open>Data\<close>

text \<open>
  The enriched segment record (\<^verbatim>\<open>seg_dict\<close> in \<^verbatim>\<open>main\<close>). The emitters read
  \<^verbatim>\<open>lang\<close>, \<^verbatim>\<open>text\<close> and \<^verbatim>\<open>translation\<close> with \<^verbatim>\<open>dict.get\<close>, so these keys may
  be absent (\<open>None\<close>); for \<^verbatim>\<open>translation\<close> the value \<^verbatim>\<open>None\<close> and an absent key read
  the same.
\<close>

record segment =
  seg_start :: real
  seg_end :: real
  seg_lang :: "string option"
  seg_text :: "string option"
  seg_translation :: "string option"

text \<open>A segment as the speech model returns it: every key read with \<^verbatim>\<open>dict.get\<close>.\<close>

record raw_segment =
  raw_start :: "real option"
  raw_end :: "real option"
  raw_text :: "string option"

text \<open>The dictionary returned by \<^verbatim>\<open>model.transcribe\<close>.\<close>

record whisper_result =
  res_segments :: "raw_segment list option"
  res_text :: "string option"
  res_language :: "string option"

text \<open>The parsed command line.\<close>

record args =
  video :: string
  out_prefix :: string
  model :: string
  refine_per_segment :: bool
  no_translate :: bool
  keep_audio :: bool
  verbose :: bool

datatype py_exn = CalledProcessError

datatype detect_error = LangDetectException

text \<open>What the script prints, by message.\<close>

datatype msg =
  MsgVideoNotFound string
| MsgLoadingModel string
| MsgExtractingAudio string
| MsgTranscribingFull
| MsgInitialSegments nat "string option"
| MsgRefining nat real real string
| MsgWhisperCall "string option" "string option"
| MsgRefineExtractFailed
| MsgTranslating nat
| MsgTranslateExtractFailed
| MsgSavedOriginalVtt string
| MsgSavedEnVtt string
| MsgSavedOriginalSrt string
| MsgSavedEnSrt string
| MsgSavedJson string
| MsgKeptAudio string
| MsgDone

text \<open>The calls the script makes to the outside, in order.\<close>

datatype event =
  Print msg
| LoadModel string
| FfmpegExtract string string
| FfmpegSlice string string real real
| Whisper string "string option" "string option"
| Detect string
| Remove string
| Copy string string

text \<open>
  File contents: text written by the emitters, the JSON document (kept as the list that
  \<^verbatim>\<open>json.dump\<close> serialises), or audio data (an opaque token).
\<close>

datatype content = Text string | Json "segment list" | Wav nat

record world =
  files :: "string \<Rightarrow> content option"
  trace :: "event list"

text \<open>The outcome of one \<^verbatim>\<open>ffmpeg\<close> process: its exit status and what it left at the output path.\<close>

record run_result =
  exit_ok :: bool
  left_file :: "content option"

text \<open>
  The collaborators, as parameters of the model: the temporary directory's name, the
  media tool, the speech model, the language detector, \<^verbatim>\<open>os.path.abspath\<close> and whether
  \<^verbatim>\<open>os.remove\<close> succeeds on a path. The failures modelled are those the source handles:
  a non-zero exit of \<^verbatim>\<open>ffmpeg\<close> (\<^verbatim>\<open>CalledProcessError\<close>), \<^verbatim>\<open>LangDetectException\<close>
  and a failing \<^verbatim>\<open>os.remove\<close>.
\<close>

record env =
  tmpdir :: string
  abspath :: "string \<Rightarrow> string"
  ffmpeg_full :: "string \<Rightarrow> string \<Rightarrow> run_result"
  ffmpeg_cut :: "string \<Rightarrow> string \<Rightarrow> real \<Rightarrow> real \<Rightarrow> run_result"
  whisper :: "string \<Rightarrow> string option \<Rightarrow> string option \<Rightarrow> whisper_result"
  detect :: "string \<Rightarrow> detect_error + string"
  remove_ok :: "string \<Rightarrow> bool"

definition log_event :: "event \<Rightarrow> world \<Rightarrow> world" where
  "log_event e w = w\<lparr>trace := trace w @ [e]\<rparr>"

text \<open>\<^verbatim>\<open>if args.verbose: print(...)\<close>.\<close>

definition vprint :: "bool \<Rightarrow> msg \<Rightarrow> world \<Rightarrow> world" where
  "vprint v m w = (if v then log_event (Print m) w else w)"

definition put_file :: "string \<Rightarrow> content \<Rightarrow> world \<Rightarrow> world" where
  "put_file p c w = w\<lparr>files := (files w)(p := Some c)\<rparr>"

text \<open>\<^verbatim>\<open>os.path.join(a, b)\<close> (POSIX).\<close>

definition dir_prefix :: "string \<Rightarrow> string" where
  "dir_prefix a = (if a = [] \<or> last a = CHR ''/'' then a else a @ ''/'')"

definition path_join :: "string \<Rightarrow> string \<Rightarrow> string" where
  "path_join a b = (if startswith b ''/'' then b else dir_prefix a @ b)"

text \<open>Leaving \<^verbatim>\<open>with tempfile.TemporaryDirectory() as td\<close>: the directory goes, with all in it.\<close>

definition rmtree :: "string \<Rightarrow> world \<Rightarrow> world" where
  "rmtree td w = w\<lparr>files := (\<lambda>p. if startswith p (dir_prefix td) then None else files w p)\<rparr>"

section \<open>External calls\<close>

definition extract_audio :: "env \<Rightarrow> string \<Rightarrow> string \<Rightarrow> world \<Rightarrow> py_exn option \<times> world" where
  "extract_audio E video_path out_audio_path w =
     (let r = ffmpeg_full E video_path out_audio_path;
          w1 = log_event (FfmpegExtract video_path out_audio_path) w;
          w2 = (case left_file r of None \<Rightarrow> w1 | Some c \<Rightarrow> put_file out_audio_path c w1)
      in (if exit_ok r then None else Some CalledProcessError, w2))"

definition extract_audio_segment ::
  "env \<Rightarrow> string \<Rightarrow> string \<Rightarrow> real \<Rightarrow> real \<Rightarrow> world \<Rightarrow> py_exn option \<times> world" where
  "extract_audio_segment E input_audio out_segment start fin w =
     (let r = ffmpeg_cut E input_audio out_segment start fin;
          w1 = log_event (FfmpegSlice input_audio out_segment start fin) w;
          w2 = (case left_file r of None \<Rightarrow> w1 | Some c \<Rightarrow> put_file out_segment c w1)
      in (if exit_ok r then None else Some CalledProcessError, w2))"

definition detect_lang_of_text :: "env \<Rightarrow> string \<Rightarrow> world \<Rightarrow> string \<times> world" where
  "detect_lang_of_text E txt w =
     (let w1 = log_event (Detect txt) w
      in case detect E txt of
           Inl LangDetectException \<Rightarrow> ([], w1)
         | Inr lang \<Rightarrow>
             (if startswith lang ''pt'' then ''pt''
              else if startswith lang ''es'' then ''es''
              else lang, w1))"

definition transcribe_full_audio ::
  "env \<Rightarrow> string \<Rightarrow> bool \<Rightarrow> world \<Rightarrow> (raw_segment list \<times> string option) \<times> world" where
  "transcribe_full_audio E audio_path verb w =
     (let w1 = vprint verb MsgTranscribingFull w;
          res = whisper E audio_path None None;
          w2 = log_event (Whisper audio_path None None) w1;
          segments = (case res_segments res of None \<Rightarrow> [] | Some l \<Rightarrow> l);
          overall_lang = res_language res
      in ((segments, overall_lang), w2))"

text \<open>An option is passed on only when it is truthy (\<^verbatim>\<open>if language:\<close>, \<^verbatim>\<open>if task:\<close>).\<close>

definition truthy_opt :: "string option \<Rightarrow> string option" where
  "truthy_opt v = (case v of None \<Rightarrow> None | Some s \<Rightarrow> if s = [] then None else Some s)"

definition transcribe_segment_audio ::
  "env \<Rightarrow> string \<Rightarrow> string option \<Rightarrow> string option \<Rightarrow> bool \<Rightarrow> world \<Rightarrow> string \<times> world" where
  "transcribe_segment_audio E seg_audio_path language task verb w =
     (let w1 = vprint verb (MsgWhisperCall language task) w;
          res = whisper E seg_audio_path (truthy_opt language) (truthy_opt task);
          w2 = log_event (Whisper seg_audio_path (truthy_opt language) (truthy_opt task)) w1;
          segs = (case res_segments res of None \<Rightarrow> [] | Some l \<Rightarrow> l);
          txt = (if segs \<noteq> []
                 then strip (py_join '' '' (map (\<lambda>s. strip (get_str (raw_text s))) segs))
                 else strip (get_str (res_text res)))
      in (txt, w2))"

section \<open>Emitters\<close>

fun write_vtt_original_cues :: "nat \<Rightarrow> segment list \<Rightarrow> string \<Rightarrow> string" where
  "write_vtt_original_cues i [] f = f"
| "write_vtt_original_cues i (s # segments) f =
     (let f1 = f @ str_nat i @ [nl];
          f2 = f1 @ seconds_to_vtt_timestamp (seg_start s) @ '' --> ''
                  @ seconds_to_vtt_timestamp (seg_end s) @ [nl];
          lang_tag = get_str (seg_lang s);
          txt = strip (get_str (seg_text s));
          f3 = (if lang_tag \<noteq> [] then f2 @ ''['' @ lang_tag @ ''] '' @ txt @ [nl, nl]
                else f2 @ txt @ [nl, nl])
      in write_vtt_original_cues (Suc i) segments f3)"

definition write_vtt_original :: "segment list \<Rightarrow> string \<Rightarrow> world \<Rightarrow> world" where
  "write_vtt_original segments path w =
     put_file path (Text (write_vtt_original_cues 1 segments (''WEBVTT'' @ [nl, nl]))) w"

fun write_vtt_translation_cues :: "nat \<Rightarrow> segment list \<Rightarrow> string \<Rightarrow> string" where
  "write_vtt_translation_cues i [] f = f"
| "write_vtt_translation_cues i (s # segments) f =
     (let f1 = f @ str_nat i @ [nl];
          f2 = f1 @ seconds_to_vtt_timestamp (seg_start s) @ '' --> ''
                  @ seconds_to_vtt_timestamp (seg_end s) @ [nl];
          f3 = (case seg_translation s of
                  None \<Rightarrow> f2 @ strip (get_str (seg_text s)) @ [nl, nl]
                | Some tr \<Rightarrow>
                    if tr \<noteq> [] \<and> strip tr \<noteq> [] then f2 @ strip tr @ [nl, nl]
                    else f2 @ strip (get_str (seg_text s)) @ [nl, nl])
      in write_vtt_translation_cues (Suc i) segments f3)"

definition write_vtt_translation :: "segment list \<Rightarrow> string \<Rightarrow> world \<Rightarrow> world" where
  "write_vtt_translation segments path w =
     put_file path (Text (write_vtt_translation_cues 1 segments (''WEBVTT'' @ [nl, nl]))) w"

fun write_srt_original_cues :: "nat \<Rightarrow> segment list \<Rightarrow> string \<Rightarrow> string" where
  "write_srt_original_cues i [] f = f"
| "write_srt_original_cues i (s # segments) f =
     (let f1 = f @ str_nat i @ [nl];
          f2 = f1 @ seconds_to_srt_timestamp (seg_start s) @ '' --> ''
                  @ seconds_to_srt_timestamp (seg_end s) @ [nl];
          lang_tag = get_str (seg_lang s);
          txt = strip (get_str (seg_text s));
          f3 = (if lang_tag \<noteq> [] then f2 @ ''['' @ lang_tag @ ''] '' @ txt @ [nl, nl]
                else f2 @ txt @ [nl, nl])
      in write_srt_original_cues (Suc i) segments f3)"

definition write_srt_original :: "segment list \<Rightarrow> string \<Rightarrow> world \<Rightarrow> world" where
  "write_srt_original segments path w =
     put_file path (Text (write_srt_original_cues 1 segments [])) w"

fun write_srt_translation_cues :: "nat \<Rightarrow> segment list \<Rightarrow> string \<Rightarrow> string" where
  "write_srt_translation_cues i [] f = f"
| "write_srt_translation_cues i (s # segments) f =
     (let f1 = f @ str_nat i @ [nl];
          f2 = f1 @ seconds_to_srt_timestamp (seg_start s) @ '' --> ''
                  @ seconds_to_srt_timestamp (seg_end s) @ [nl];
          f3 = (case seg_translation s of
                  None \<Rightarrow> f2 @ strip (get_str (seg_text s)) @ [nl, nl]
                | Some tr \<Rightarrow>
                    if tr \<noteq> [] \<and> strip tr \<noteq> [] then f2 @ strip tr @ [nl, nl]
                    else f2 @ strip (get_str (seg_text s)) @ [nl, nl])
      in write_srt_translation_cues (Suc i) segments f3)"

definition write_srt_translation :: "segment list \<Rightarrow> string \<Rightarrow> world \<Rightarrow> world" where
  "write_srt_translation segments path w =
     put_file path (Text (write_srt_translation_cues 1 segments [])) w"

section \<open>The orchestrator\<close>

text \<open>The \<^verbatim>\<open>finally\<close> clause of both per-segment blocks of \<^verbatim>\<open>main\<close>:
  \<^verbatim>\<open>if os.path.exists(p): try: os.remove(p) except: pass\<close>.\<close>

definition cleanup_slice :: "env \<Rightarrow> string \<Rightarrow> world \<Rightarrow> world" where
  "cleanup_slice E p w =
     (if files w p \<noteq> None
      then (let w1 = log_event (Remove p) w
            in if remove_ok E p then w1\<lparr>files := (files w1)(p := None)\<rparr> else w1)
      else w)"

text \<open>\<^verbatim>\<open>main\<close>, line 212: \<^verbatim>\<open>detect_lang_of_text(text) if text else ""\<close>.\<close>

definition classify_text :: "env \<Rightarrow> string \<Rightarrow> world \<Rightarrow> string \<times> world" where
  "classify_text E txt w = (if txt \<noteq> [] then detect_lang_of_text E txt w else ([], w))"

text \<open>\<^verbatim>\<open>main\<close>, line 213: \<^verbatim>\<open>detected if detected else (overall_lang if overall_lang else "")\<close>.\<close>

definition choose_lang :: "string \<Rightarrow> string option \<Rightarrow> string" where
  "choose_lang detected overall_lang =
     (if detected \<noteq> [] then detected
      else (case overall_lang of None \<Rightarrow> [] | Some l \<Rightarrow> if l \<noteq> [] then l else []))"

text \<open>\<^verbatim>\<open>main\<close>, lines 216 to 233: the optional refinement of one segment.\<close>

definition refine_block ::
  "env \<Rightarrow> args \<Rightarrow> string \<Rightarrow> string \<Rightarrow> nat \<Rightarrow> real \<Rightarrow> real \<Rightarrow> string \<Rightarrow> string \<Rightarrow> world
    \<Rightarrow> string \<times> world" where
  "refine_block E a td audio_file idx start fin chosen_lang txt w =
     (if refine_per_segment a \<and> (chosen_lang = ''pt'' \<or> chosen_lang = ''es'')
      then
        (let w1 = vprint (verbose a) (MsgRefining (idx + 1) start fin chosen_lang) w;
             seg_audio = path_join td (''segment_'' @ str_nat (idx + 1) @ ''.wav'')
         in case extract_audio_segment E audio_file seg_audio start fin w1 of
              (Some CalledProcessError, w2) \<Rightarrow>
                (txt, cleanup_slice E seg_audio (vprint (verbose a) MsgRefineExtractFailed w2))
            | (None, w2) \<Rightarrow>
                (case transcribe_segment_audio E seg_audio (Some chosen_lang) None (verbose a) w2 of
                   (new_text, w3) \<Rightarrow>
                     (if new_text \<noteq> [] then new_text else txt, cleanup_slice E seg_audio w3)))
      else (txt, w))"

text \<open>\<^verbatim>\<open>main\<close>, lines 244 to 262: the optional translation of one segment.\<close>

definition translate_block ::
  "env \<Rightarrow> args \<Rightarrow> string \<Rightarrow> string \<Rightarrow> nat \<Rightarrow> real \<Rightarrow> real \<Rightarrow> world \<Rightarrow> string option \<times> world" where
  "translate_block E a td audio_file idx start fin w =
     (if \<not> no_translate a
      then
        (let w1 = vprint (verbose a) (MsgTranslating (idx + 1)) w;
             seg_audio_t = path_join td (''segment_'' @ str_nat (idx + 1) @ ''_t.wav'')
         in case extract_audio_segment E audio_file seg_audio_t start fin w1 of
              (Some CalledProcessError, w2) \<Rightarrow>
                (None, cleanup_slice E seg_audio_t (vprint (verbose a) MsgTranslateExtractFailed w2))
            | (None, w2) \<Rightarrow>
                (case transcribe_segment_audio E seg_audio_t None (Some ''translate'') (verbose a) w2 of
                   (trans_text, w3) \<Rightarrow>
                     (if trans_text \<noteq> [] then Some trans_text else None,
                      cleanup_slice E seg_audio_t w3)))
      else (None, w))"

text \<open>\<^verbatim>\<open>main\<close>, lines 207 to 264: the body of the loop over the raw segments.\<close>

definition process_segment ::
  "env \<Rightarrow> args \<Rightarrow> string \<Rightarrow> string \<Rightarrow> string option \<Rightarrow> nat \<Rightarrow> raw_segment \<Rightarrow> world
    \<Rightarrow> segment \<times> world" where
  "process_segment E a td audio_file overall_lang idx seg w =
     (let start = (case raw_start seg of None \<Rightarrow> 0 | Some x \<Rightarrow> x);
          fin = (case raw_end seg of None \<Rightarrow> start + 0.5 | Some x \<Rightarrow> x);
          txt = strip (get_str (raw_text seg))
      in case classify_text E txt w of
           (detected, w1) \<Rightarrow>
             (let chosen_lang = choose_lang detected overall_lang
              in case refine_block E a td audio_file idx start fin chosen_lang txt w1 of
                   (txt2, w2) \<Rightarrow>
                     (case translate_block E a td audio_file idx start fin w2 of
                        (translation, w3) \<Rightarrow>
                          (\<lparr>seg_start = start, seg_end = fin, seg_lang = Some chosen_lang,
                            seg_text = Some txt2, seg_translation = translation\<rparr>, w3))))"

text \<open>The loop \<^verbatim>\<open>for idx, seg in enumerate(base_segments)\<close>, appending to \<^verbatim>\<open>processed\<close>.\<close>

fun process_segments ::
  "env \<Rightarrow> args \<Rightarrow> string \<Rightarrow> string \<Rightarrow> string option \<Rightarrow> nat \<Rightarrow> raw_segment list
    \<Rightarrow> segment list \<Rightarrow> world \<Rightarrow> segment list \<times> world" where
  "process_segments E a td audio_file overall_lang idx [] processed w = (processed, w)"
| "process_segments E a td audio_file overall_lang idx (seg # segs) processed w =
     (case process_segment E a td audio_file overall_lang idx seg w of
        (seg_dict, w1) \<Rightarrow>
          process_segments E a td audio_file overall_lang (Suc idx) segs (processed @ [seg_dict]) w1)"

text \<open>\<^verbatim>\<open>main\<close>, lines 266 to 302: the subtitle files, the JSON document, the kept audio.\<close>

definition emit_outputs :: "env \<Rightarrow> args \<Rightarrow> string \<Rightarrow> segment list \<Rightarrow> world \<Rightarrow> world" where
  "emit_outputs E a audio_file processed w =
     (let original_vtt = out_prefix a @ ''.original.vtt'';
          w1 = vprint (verbose a) (MsgSavedOriginalVtt original_vtt)
                 (write_vtt_original processed original_vtt w);
          en_vtt = out_prefix a @ ''.en.vtt'';
          w2 = (if \<not> no_translate a
                then vprint (verbose a) (MsgSavedEnVtt en_vtt)
                       (write_vtt_translation processed en_vtt w1)
                else w1);
          original_srt = out_prefix a @ ''.original.srt'';
          w3 = vprint (verbose a) (MsgSavedOriginalSrt original_srt)
                 (write_srt_original processed original_srt w2);
          en_srt = out_prefix a @ ''.en.srt'';
          w4 = (if \<not> no_translate a
                then vprint (verbose a) (MsgSavedEnSrt en_srt)
                       (write_srt_translation processed en_srt w3)
                else w3);
          json_out = out_prefix a @ ''.json'';
          w5 = vprint (verbose a) (MsgSavedJson json_out) (put_file json_out (Json processed) w4);
          kept = abspath E (out_prefix a @ ''.extracted_audio.wav'');
          w6 = (if keep_audio a
                then (let wa = log_event (Copy audio_file kept) w5;
                          wb = (case files wa audio_file of
                                  None \<Rightarrow> wa
                                | Some c \<Rightarrow> put_file kept c wa)
                      in vprint (verbose a) (MsgKeptAudio kept) wb)
                else w5)
      in w6)"

text \<open>
  \<^verbatim>\<open>main\<close>. The result is the exception that escapes, if any, and the world it leaves.
  A \<^verbatim>\<open>CalledProcessError\<close> of the whole-file extraction is not caught: it leaves the
  \<^verbatim>\<open>with\<close> block (which removes the temporary directory) and ends the run.
\<close>

definition main :: "env \<Rightarrow> args \<Rightarrow> world \<Rightarrow> py_exn option \<times> world" where
  "main E a w =
     (if files w (video a) = None
      then (None, log_event (Print (MsgVideoNotFound (video a))) w)
      else
        (let w1 = vprint (verbose a) (MsgLoadingModel (model a)) w;
             w2 = log_event (LoadModel (model a)) w1;
             td = tmpdir E;
             audio_file = path_join td ''extracted_audio.wav'';
             w3 = vprint (verbose a) (MsgExtractingAudio audio_file) w2
         in case extract_audio E (video a) audio_file w3 of
              (Some e, w4) \<Rightarrow> (Some e, rmtree td w4)
            | (None, w4) \<Rightarrow>
                (case transcribe_full_audio E audio_file (verbose a) w4 of
                   ((base_segments, overall_lang), w5) \<Rightarrow>
                     (let w6 = vprint (verbose a)
                                 (MsgInitialSegments (length base_segments) overall_lang) w5
                      in case process_segments E a td audio_file overall_lang 0 base_segments [] w6 of
                           (processed, w7) \<Rightarrow>
                             (None, vprint (verbose a) MsgDone
                                      (rmtree td (emit_outputs E a audio_file processed w7)))))))"

text \<open>The status the interpreter exits with: 0 when \<^verbatim>\<open>main\<close> returns, 1 on an uncaught exception.\<close>

definition exit_status :: "py_exn option \<Rightarrow> nat" where
  "exit_status r = (case r of None \<Rightarrow> 0 | Some e \<Rightarrow> 1)"

section \<open>The emitters' contract, as the specification words it\<close>

text \<open>One cue: the sequence number, the timing line, the body, a blank line.\<close>

definition spec_cue :: "(real \<Rightarrow> string) \<Rightarrow> nat \<Rightarrow> segment \<Rightarrow> string \<Rightarrow> string" where
  "spec_cue ts n s body =
     str_nat n @ [nl] @ ts (seg_start s) @ '' --> '' @ ts (seg_end s) @ [nl] @ body @ [nl, nl]"

text \<open>A track: the header, then the cues of the segments in list order, numbered from 1.\<close>

definition spec_track ::
  "string \<Rightarrow> (real \<Rightarrow> string) \<Rightarrow> (segment \<Rightarrow> string) \<Rightarrow> segment list \<Rightarrow> string" where
  "spec_track header ts body segs =
     header @ concat (map (\<lambda>k. spec_cue ts (Suc k) (segs ! k) (body (segs ! k))) [0..<length segs])"

text \<open>Original track: \<open>[lang] text\<close> when \<open>lang\<close> is non-empty, else just \<open>text\<close>.\<close>

definition spec_original_body :: "segment \<Rightarrow> string" where
  "spec_original_body s =
     (if get_str (seg_lang s) \<noteq> [] then ''['' @ get_str (seg_lang s) @ ''] '' @ strip (get_str (seg_text s))
      else strip (get_str (seg_text s)))"

text \<open>Translation track: the trimmed translation if present and non-empty, else the trimmed text.\<close>

definition spec_translation_body :: "segment \<Rightarrow> string" where
  "spec_translation_body s =
     (case seg_translation s of
        None \<Rightarrow> strip (get_str (seg_text s))
      | Some t \<Rightarrow> if strip t \<noteq> [] then strip t else strip (get_str (seg_text s)))"

section \<open>Predicates used to state the properties\<close>

text \<open>The world with no file and no call made.\<close>

definition empty_world :: world where
  "empty_world = \<lparr>files = (\<lambda>p. None), trace = []\<rparr>"

text \<open>A record's translation is absent, or a non-empty string with no whitespace at either end.\<close>

definition translation_ok :: "segment \<Rightarrow> bool" where
  "translation_ok d =
     (case seg_translation d of
        None \<Rightarrow> True
      | Some t \<Rightarrow> t \<noteq> [] \<and> \<not> is_space (hd t) \<and> \<not> is_space (last t) \<and> strip t = t)"

text \<open>
  The calls that belong to the refinement of a segment whose slice file is \<open>p\<close>: cutting
  the slice into \<open>p\<close>, and a transcription of \<open>p\<close> or one with a forced language.
\<close>

definition refiner_event :: "string \<Rightarrow> event \<Rightarrow> bool" where
  "refiner_event p e =
     (case e of
        FfmpegSlice i out s f \<Rightarrow> out = p
      | Whisper q lang task \<Rightarrow> q = p \<or> lang \<noteq> None
      | _ \<Rightarrow> False)"

text \<open>From \<open>w\<close> to \<open>w'\<close> the trace only grew, and every call added satisfies \<open>Q\<close>.\<close>

definition adds_only :: "(event \<Rightarrow> bool) \<Rightarrow> world \<Rightarrow> world \<Rightarrow> bool" where
  "adds_only Q w w' =
     (take (length (trace w)) (trace w') = trace w
      \<and> list_all Q (drop (length (trace w)) (trace w')))"


text \<open>The five files a run with translation writes, and when no later step of the run can
  touch them: none lies in the temporary directory, and the kept audio (if asked for) is
  not copied over one of them.\<close>

definition output_paths :: "args \<Rightarrow> string list" where
  "output_paths a =
     [out_prefix a @ ''.original.vtt'', out_prefix a @ ''.en.vtt'',
      out_prefix a @ ''.original.srt'', out_prefix a @ ''.en.srt'', out_prefix a @ ''.json'']"

definition outputs_safe :: "env \<Rightarrow> args \<Rightarrow> bool" where
  "outputs_safe E a =
     list_all (\<lambda>p. \<not> startswith p (dir_prefix (tmpdir E))
                  \<and> \<not> (keep_audio a \<and> abspath E (out_prefix a @ ''.extracted_audio.wav'') = p))
       (output_paths a)"

text \<open>What the whole-file pass of a run returns, and the records the loop builds from it.\<close>

definition base_segments :: "env \<Rightarrow> raw_segment list" where
  "base_segments E =
     fst (fst (transcribe_full_audio E (path_join (tmpdir E) ''extracted_audio.wav'') False
                 empty_world))"

definition overall_language :: "env \<Rightarrow> string option" where
  "overall_language E =
     snd (fst (transcribe_full_audio E (path_join (tmpdir E) ''extracted_audio.wav'') False
                 empty_world))"

definition processed_segments :: "env \<Rightarrow> args \<Rightarrow> segment list" where
  "processed_segments E a =
     fst (process_segments E a (tmpdir E) (path_join (tmpdir E) ''extracted_audio.wav'')
            (overall_language E) 0 (base_segments E) [] empty_world)"

section \<open>Concrete inputs\<close>

text \<open>A world holding one video, a command line, and collaborators to run the model on.\<close>

definition demo_world :: world where
  "demo_world = \<lparr>files = (\<lambda>p. if p = ''talk.mp4'' then Some (Wav 0) else None), trace = []\<rparr>"

definition demo_args :: args where
  "demo_args = \<lparr>video = ''talk.mp4'', out_prefix = ''out'', model = ''small'',
     refine_per_segment = True, no_translate = False, keep_audio = False, verbose = False\<rparr>"

text \<open>A detector that answers \<open>zh-cn\<close>, as \<^verbatim>\<open>langdetect\<close> does for Chinese text.\<close>

definition zh_env :: env where
  "zh_env = \<lparr>tmpdir = ''/tmp/td'', abspath = (\<lambda>p. p),
     ffmpeg_full = (\<lambda>i out. \<lparr>exit_ok = True, left_file = Some (Wav 1)\<rparr>),
     ffmpeg_cut = (\<lambda>i out s e. \<lparr>exit_ok = True, left_file = Some (Wav 2)\<rparr>),
     whisper = (\<lambda>p l t. \<lparr>res_segments = None, res_text = None, res_language = None\<rparr>),
     detect = (\<lambda>t. Inr ''zh-cn''),
     remove_ok = (\<lambda>p. True)\<rparr>"

text \<open>Collaborators where every slice extraction fails and leaves a partial file behind.\<close>

definition failing_env :: env where
  "failing_env = \<lparr>tmpdir = ''/tmp/td'', abspath = (\<lambda>p. p),
     ffmpeg_full = (\<lambda>i out. \<lparr>exit_ok = True, left_file = Some (Wav 1)\<rparr>),
     ffmpeg_cut = (\<lambda>i out s e. \<lparr>exit_ok = False, left_file = Some (Wav 2)\<rparr>),
     whisper = (\<lambda>p l t. \<lparr>res_segments =
                  Some [\<lparr>raw_start = Some 0, raw_end = Some 2, raw_text = Some '' Hola ''\<rparr>],
                res_text = Some ''Hola'', res_language = Some ''es''\<rparr>),
     detect = (\<lambda>t. Inr ''es''),
     remove_ok = (\<lambda>p. True)\<rparr>"

text \<open>Collaborators where every call succeeds; the detector answers \<open>fr\<close>.\<close>

definition french_env :: env where
  "french_env = \<lparr>tmpdir = ''/tmp/td'', abspath = (\<lambda>p. p),
     ffmpeg_full = (\<lambda>i out. \<lparr>exit_ok = True, left_file = Some (Wav 1)\<rparr>),
     ffmpeg_cut = (\<lambda>i out s e. \<lparr>exit_ok = True, left_file = Some (Wav 2)\<rparr>),
     whisper = (\<lambda>p l t. \<lparr>res_segments =
                  Some [\<lparr>raw_start = Some 0, raw_end = Some 2,
                         raw_text = Some (if t = Some ''translate'' then '' Good morning '' else ''Bonjour'')\<rparr>],
                res_text = None, res_language = Some ''fr''\<rparr>),
     detect = (\<lambda>t. Inr ''fr''),
     remove_ok = (\<lambda>p. True)\<rparr>"

section \<open>Lemmas on formatting and rounding\<close>

declare str_nat.simps [simp del]

lemma digit_char_props:
  assumes "d < 10"
  shows "is_digit (digit_char d)" and "digit_val (digit_char d) = d"
proof -
  from assms have "d \<in> {0, 1, 2, 3, 4, 5, 6, 7, 8, 9}" by auto
  then show "is_digit (digit_char d)" and "digit_val (digit_char d) = d"
    by (auto simp: digit_char_def is_digit_def digit_val_def)
qed

lemma digits_value_snoc: "digits_value (s @ [c]) = 10 * digits_value s + digit_val c"
  by (simp add: digits_value_def)

lemma str_nat_all_digits: "list_all is_digit (str_nat n)"
proof (induction n rule: str_nat.induct)
  case (1 n)
  show ?case
  proof (cases "n < 10")
    case True
    then show ?thesis by (subst str_nat.simps) (simp add: digit_char_props)
  next
    case False
    with 1 show ?thesis by (subst str_nat.simps) (simp add: digit_char_props)
  qed
qed

lemma str_nat_value: "digits_value (str_nat n) = n"
proof (induction n rule: str_nat.induct)
  case (1 n)
  show ?case
  proof (cases "n < 10")
    case True
    then show ?thesis
      by (subst str_nat.simps) (simp add: digit_char_props digits_value_def)
  next
    case False
    with 1 show ?thesis
      by (subst str_nat.simps) (simp add: digit_char_props digits_value_snoc)
  qed
qed

lemma str_nat_length_lt10: "n < 10 \<Longrightarrow> length (str_nat n) = 1"
  by (subst str_nat.simps) simp

lemma str_nat_length_lt100: "n < 100 \<Longrightarrow> length (str_nat n) \<le> 2"
  by (subst str_nat.simps) (simp add: str_nat_length_lt10)

lemma str_nat_length_lt1000: "n < 1000 \<Longrightarrow> length (str_nat n) \<le> 3"
proof -
  assume "n < 1000"
  then have "n div 10 < 100" by simp
  then have "length (str_nat (n div 10)) \<le> 2" by (rule str_nat_length_lt100)
  then show ?thesis by (subst str_nat.simps) simp
qed

lemma digits_value_zeros: "digits_value (replicate k (CHR ''0'') @ s) = digits_value s"
proof -
  have "foldl (\<lambda>a c. 10 * a + digit_val c) 0 (replicate k (CHR ''0'')) = 0"
    by (induction k) (simp_all add: digit_val_def)
  then show ?thesis by (simp add: digits_value_def)
qed

lemma zfill_value: "digits_value (zfill w s) = digits_value s"
  by (simp add: zfill_def digits_value_zeros)

lemma zfill_all_digits: "list_all is_digit s \<Longrightarrow> list_all is_digit (zfill w s)"
  by (simp add: zfill_def is_digit_def list_all_length nth_append)

lemma zfill_length: "length (zfill w s) = max w (length s)"
  by (simp add: zfill_def)

lemma format_d_nonneg:
  assumes "0 \<le> x"
  shows "list_all is_digit (format_d w x)"
    and "digits_value (format_d w x) = nat x"
    and "length (format_d w x) = max w (length (str_nat (nat x)))"
  using assms
  by (simp_all add: format_d_def zfill_value zfill_all_digits zfill_length str_nat_all_digits str_nat_value)

lemma py_round_cases:
  "(x - of_int \<lfloor>x\<rfloor> < 1 / 2 \<and> py_round x = \<lfloor>x\<rfloor>) \<or>
   (1 / 2 < x - of_int \<lfloor>x\<rfloor> \<and> py_round x = \<lfloor>x\<rfloor> + 1) \<or>
   (x - of_int \<lfloor>x\<rfloor> = 1 / 2 \<and> (py_round x = \<lfloor>x\<rfloor> \<or> py_round x = \<lfloor>x\<rfloor> + 1))"
  unfolding py_round_def Let_def
  by (cases "x - of_int \<lfloor>x\<rfloor> < 1 / 2"; cases "1 / 2 < x - of_int \<lfloor>x\<rfloor>"; simp)

lemma py_round_nearest: "\<bar>of_int (py_round x) - x\<bar> \<le> 1 / 2"
proof -
  have b: "of_int \<lfloor>x\<rfloor> \<le> x" "x < of_int \<lfloor>x\<rfloor> + 1" by linarith+
  from py_round_cases [of x]
  have "of_int (py_round x) - x \<le> 1 / 2 \<and> x - of_int (py_round x) \<le> 1 / 2"
  proof (elim disjE conjE)
    assume a: "x - of_int \<lfloor>x\<rfloor> < 1 / 2" "py_round x = \<lfloor>x\<rfloor>"
    show ?thesis using b a(1) unfolding a(2) by (intro conjI) linarith+
  next
    assume a: "1 / 2 < x - of_int \<lfloor>x\<rfloor>" "py_round x = \<lfloor>x\<rfloor> + 1"
    show ?thesis using b a(1) unfolding a(2) of_int_add of_int_1 by (intro conjI) linarith+
  next
    assume a: "x - of_int \<lfloor>x\<rfloor> = 1 / 2" "py_round x = \<lfloor>x\<rfloor>"
    show ?thesis using b a(1) unfolding a(2) by (intro conjI) linarith+
  next
    assume a: "x - of_int \<lfloor>x\<rfloor> = 1 / 2" "py_round x = \<lfloor>x\<rfloor> + 1"
    show ?thesis using b a(1) unfolding a(2) of_int_add of_int_1 by (intro conjI) linarith+
  qed
  then show ?thesis by linarith
qed

lemma py_round_nonneg: "0 \<le> x \<Longrightarrow> 0 \<le> py_round x"
proof -
  assume "0 \<le> x"
  then have "0 \<le> \<lfloor>x\<rfloor>" by simp
  then show ?thesis unfolding py_round_def Let_def by simp
qed

lemma py_round_le: "x \<le> of_int k \<Longrightarrow> py_round x \<le> k"
proof -
  assume a: "x \<le> of_int k"
  have n: "\<bar>of_int (py_round x) - x\<bar> \<le> 1 / 2" by (rule py_round_nearest)
  have "of_int (py_round x) \<le> (of_int k :: real) + 1 / 2" using a n by linarith
  then have "of_int (py_round x) < (of_int (k + 1) :: real)" by simp
  then have "py_round x < k + 1" by (simp only: of_int_less_iff)
  then show ?thesis by simp
qed

lemma replicate_numeral: "replicate (numeral k) x = x # replicate (pred_numeral k) x"
  by (simp add: numeral_eq_Suc)

lemmas timestamp_eval =
  seconds_to_vtt_timestamp_def seconds_to_srt_timestamp_def py_round_def format_d_def
  zfill_def str_nat.simps digit_char_def Let_def replicate_numeral

lemma vtt_examples:
  "seconds_to_vtt_timestamp 0 = ''00:00:00.000''"
  "seconds_to_vtt_timestamp 3661.5 = ''01:01:01.500''"
  "seconds_to_vtt_timestamp 0.9996 = ''00:00:00.1000''"
  "seconds_to_vtt_timestamp 360000 = ''100:00:00.000''"
  by (simp_all add: timestamp_eval)

lemma srt_examples:
  "seconds_to_srt_timestamp 0 = ''00:00:00,000''"
  "seconds_to_srt_timestamp 3661.5 = ''01:01:01,500''"
  "seconds_to_srt_timestamp 0.9996 = ''00:00:00,1000''"
  "seconds_to_srt_timestamp 360000 = ''100:00:00,000''"
  by (simp_all add: timestamp_eval)

lemma hms_decompose:
  fixes t :: int
  shows "(t div 3600) * 3600 + ((t div 60) mod 60) * 60 + t mod 60 = t"
proof -
  have a: "t div 3600 = (t div 60) div 60"
    by (simp add: zdiv_zmult2_eq)
  have b: "(t div 60) div 60 * 60 + (t div 60) mod 60 = t div 60"
    by simp
  have c: "t div 60 * 60 + t mod 60 = t"
    by simp
  have "(t div 3600) * 3600 + ((t div 60) mod 60) * 60 + t mod 60
      = ((t div 60) div 60 * 60 + (t div 60) mod 60) * 60 + t mod 60"
    unfolding a by (simp only: distrib_right mult.assoc)
  also have "\<dots> = t" unfolding b by (rule c)
  finally show ?thesis .
qed

section \<open>Lemmas on the emitters\<close>

lemma strip_Nil: "strip [] = []"
  by (simp add: strip_def)

lemma concat_cues_Cons:
  "concat (map (\<lambda>k. g (i + k) ((s # segs) ! k)) [0..<Suc (length segs)])
   = g i s @ concat (map (\<lambda>k. g (Suc i + k) (segs ! k)) [0..<length segs])"
  by (simp add: map_upt_Suc del: upt_Suc)

lemma original_body_cases:
  "(if get_str (seg_lang s) \<noteq> [] then f @ ''['' @ get_str (seg_lang s) @ ''] '' @ strip (get_str (seg_text s)) @ [nl, nl]
    else f @ strip (get_str (seg_text s)) @ [nl, nl]) = f @ spec_original_body s @ [nl, nl]"
  by (simp add: spec_original_body_def)

lemma translation_body_cases:
  "(case seg_translation s of
      None \<Rightarrow> f @ strip (get_str (seg_text s)) @ [nl, nl]
    | Some tr \<Rightarrow>
        if tr \<noteq> [] \<and> strip tr \<noteq> [] then f @ strip tr @ [nl, nl]
        else f @ strip (get_str (seg_text s)) @ [nl, nl]) = f @ spec_translation_body s @ [nl, nl]"
  by (auto simp: spec_translation_body_def strip_Nil split: option.splits)

lemma write_vtt_original_cues_eq:
  "write_vtt_original_cues i segs f =
     f @ concat (map (\<lambda>k. spec_cue seconds_to_vtt_timestamp (i + k) (segs ! k) (spec_original_body (segs ! k)))
                   [0..<length segs])"
proof (induction segs arbitrary: i f)
  case Nil
  show ?case by simp
next
  case (Cons s segs)
  show ?case
    unfolding write_vtt_original_cues.simps Let_def original_body_cases Cons.IH length_Cons
      concat_cues_Cons [where g = "\<lambda>n x. spec_cue seconds_to_vtt_timestamp n x (spec_original_body x)"]
    by (simp add: spec_cue_def)
qed

lemma write_srt_original_cues_eq:
  "write_srt_original_cues i segs f =
     f @ concat (map (\<lambda>k. spec_cue seconds_to_srt_timestamp (i + k) (segs ! k) (spec_original_body (segs ! k)))
                   [0..<length segs])"
proof (induction segs arbitrary: i f)
  case Nil
  show ?case by simp
next
  case (Cons s segs)
  show ?case
    unfolding write_srt_original_cues.simps Let_def original_body_cases Cons.IH length_Cons
      concat_cues_Cons [where g = "\<lambda>n x. spec_cue seconds_to_srt_timestamp n x (spec_original_body x)"]
    by (simp add: spec_cue_def)
qed

lemma write_vtt_translation_cues_eq:
  "write_vtt_translation_cues i segs f =
     f @ concat (map (\<lambda>k. spec_cue seconds_to_vtt_timestamp (i + k) (segs ! k) (spec_translation_body (segs ! k)))
                   [0..<length segs])"
proof (induction segs arbitrary: i f)
  case Nil
  show ?case by simp
next
  case (Cons s segs)
  show ?case
    unfolding write_vtt_translation_cues.simps Let_def translation_body_cases Cons.IH length_Cons
      concat_cues_Cons [where g = "\<lambda>n x. spec_cue seconds_to_vtt_timestamp n x (spec_translation_body x)"]
    by (simp add: spec_cue_def)
qed

lemma write_srt_translation_cues_eq:
  "write_srt_translation_cues i segs f =
     f @ concat (map (\<lambda>k. spec_cue seconds_to_srt_timestamp (i + k) (segs ! k) (spec_translation_body (segs ! k)))
                   [0..<length segs])"
proof (induction segs arbitrary: i f)
  case Nil
  show ?case by simp
next
  case (Cons s segs)
  show ?case
    unfolding write_srt_translation_cues.simps Let_def translation_body_cases Cons.IH length_Cons
      concat_cues_Cons [where g = "\<lambda>n x. spec_cue seconds_to_srt_timestamp n x (spec_translation_body x)"]
    by (simp add: spec_cue_def)
qed

lemma files_put_file: "files (put_file p c w) q = (if q = p then Some c else files w q)"
  by (simp add: put_file_def)

lemma trace_put_file: "trace (put_file p c w) = trace w"
  by (simp add: put_file_def)

lemma spec_track_Nil: "spec_track header ts body [] = header"
  by (simp add: spec_track_def)

lemma spec_track_snoc:
  "spec_track header ts body (segs @ [s]) =
     spec_track header ts body segs @ spec_cue ts (Suc (length segs)) s (body s)"
proof -
  have m: "map (\<lambda>k. spec_cue ts (Suc k) ((segs @ [s]) ! k) (body ((segs @ [s]) ! k))) [0..<length segs]
      = map (\<lambda>k. spec_cue ts (Suc k) (segs ! k) (body (segs ! k))) [0..<length segs]"
    by (rule map_cong) (simp_all add: nth_append)
  show ?thesis by (simp add: spec_track_def m)
qed

lemmas strip_eval = strip_def is_space_def get_str_def

section \<open>Lemmas on the orchestrator\<close>

lemma trace_log_event: "trace (log_event e w) = trace w @ [e]"
  by (simp add: log_event_def)

lemma files_log_event: "files (log_event e w) = files w"
  by (simp add: log_event_def)

lemma process_segment_fields:
  "seg_start (fst (process_segment E a td audio_file overall_lang idx seg w))
     = (case raw_start seg of None \<Rightarrow> 0 | Some x \<Rightarrow> x)"
  "seg_end (fst (process_segment E a td audio_file overall_lang idx seg w))
     = (case raw_end seg of
          None \<Rightarrow> (case raw_start seg of None \<Rightarrow> 0 | Some x \<Rightarrow> x) + 0.5
        | Some y \<Rightarrow> y)"
  "seg_lang (fst (process_segment E a td audio_file overall_lang idx seg w))
     = Some (choose_lang (fst (classify_text E (strip (get_str (raw_text seg))) w)) overall_lang)"
  by (simp_all add: process_segment_def Let_def split: prod.splits)

lemma last_dropWhile: "dropWhile P xs \<noteq> [] \<Longrightarrow> last (dropWhile P xs) = last xs"
  by (induction xs) (auto split: if_splits)

lemma strip_no_outer_space:
  assumes "strip s \<noteq> []"
  shows "\<not> is_space (hd (strip s))" and "\<not> is_space (last (strip s))"
proof -
  define u where "u = dropWhile is_space s"
  define v where "v = dropWhile is_space (rev u)"
  have sv: "strip s = rev v" by (simp add: strip_def u_def v_def)
  with assms have v: "v \<noteq> []" by simp
  then have ru: "rev u \<noteq> []" by (auto simp: v_def)
  then have u: "u \<noteq> []" by simp
  have "\<not> is_space (hd v)" using v unfolding v_def by (rule hd_dropWhile)
  then show "\<not> is_space (last (strip s))" using v by (simp add: sv last_rev)
  have "last v = last (rev u)" using v unfolding v_def by (rule last_dropWhile)
  also have "\<dots> = hd u" using u by (simp add: last_rev)
  finally have "hd (strip s) = hd u" using v by (simp add: sv hd_rev)
  moreover have "\<not> is_space (hd u)" using u unfolding u_def by (rule hd_dropWhile)
  ultimately show "\<not> is_space (hd (strip s))" by simp
qed

lemma dropWhile_hd_id: "xs \<noteq> [] \<Longrightarrow> \<not> P (hd xs) \<Longrightarrow> dropWhile P xs = xs"
  by (cases xs) simp_all

lemma strip_id:
  assumes "t \<noteq> []" "\<not> is_space (hd t)" "\<not> is_space (last t)"
  shows "strip t = t"
proof -
  have a: "dropWhile is_space t = t" using assms(1,2) by (rule dropWhile_hd_id)
  have "rev t \<noteq> []" "\<not> is_space (hd (rev t))" using assms(1,3) by (simp_all add: hd_rev)
  then have "dropWhile is_space (rev t) = rev t" by (rule dropWhile_hd_id)
  then show ?thesis by (simp add: strip_def a)
qed

lemma strip_strip: "strip (strip s) = strip s"
proof (cases "strip s = []")
  case True
  then show ?thesis by (simp add: strip_Nil)
next
  case False
  then show ?thesis by (intro strip_id strip_no_outer_space)
qed

lemma translation_ok_None: "seg_translation d = None \<Longrightarrow> translation_ok d"
  by (simp add: translation_ok_def)

lemma translation_ok_strip:
  "seg_translation d = Some (strip x) \<Longrightarrow> strip x \<noteq> [] \<Longrightarrow> translation_ok d"
  by (simp add: translation_ok_def strip_no_outer_space strip_strip)

lemma transcribe_segment_audio_fst:
  "\<exists>x. fst (transcribe_segment_audio E p l t v w) = strip x"
  by (auto simp: transcribe_segment_audio_def Let_def)

lemma translate_block_fst:
  "fst (translate_block E a td audio_file idx start fin w) = None
   \<or> (\<exists>x. fst (translate_block E a td audio_file idx start fin w) = Some (strip x) \<and> strip x \<noteq> [])"
proof (cases "no_translate a")
  case True
  then show ?thesis by (simp add: translate_block_def)
next
  case False
  let ?p = "path_join td (''segment_'' @ str_nat (idx + 1) @ ''_t.wav'')"
  let ?w1 = "vprint (verbose a) (MsgTranslating (idx + 1)) w"
  obtain ex w2 where r: "extract_audio_segment E audio_file ?p start fin ?w1 = (ex, w2)"
    by (cases "extract_audio_segment E audio_file ?p start fin ?w1")
  show ?thesis
  proof (cases ex)
    case (Some e)
    with False r show ?thesis by (cases e) (simp add: translate_block_def Let_def)
  next
    case None
    obtain x where x: "fst (transcribe_segment_audio E ?p None (Some ''translate'') (verbose a) w2) = strip x"
      using transcribe_segment_audio_fst by blast
    with False r None show ?thesis
      by (cases "transcribe_segment_audio E ?p None (Some ''translate'') (verbose a) w2")
         (auto simp: translate_block_def Let_def)
  qed
qed

lemma process_segment_translation:
  "seg_translation (fst (process_segment E a td audio_file overall_lang idx seg w))
     = fst (translate_block E a td audio_file idx
              (seg_start (fst (process_segment E a td audio_file overall_lang idx seg w)))
              (seg_end (fst (process_segment E a td audio_file overall_lang idx seg w)))
              (snd (refine_block E a td audio_file idx
                 (seg_start (fst (process_segment E a td audio_file overall_lang idx seg w)))
                 (seg_end (fst (process_segment E a td audio_file overall_lang idx seg w)))
                 (choose_lang (fst (classify_text E (strip (get_str (raw_text seg))) w)) overall_lang)
                 (strip (get_str (raw_text seg)))
                 (snd (classify_text E (strip (get_str (raw_text seg))) w)))))"
  by (simp add: process_segment_def Let_def split: prod.splits)

lemma process_segment_translation_ok:
  "translation_ok (fst (process_segment E a td audio_file overall_lang idx seg w))"
  using translate_block_fst
    [of E a td audio_file idx
        "seg_start (fst (process_segment E a td audio_file overall_lang idx seg w))"
        "seg_end (fst (process_segment E a td audio_file overall_lang idx seg w))"
        "snd (refine_block E a td audio_file idx
                 (seg_start (fst (process_segment E a td audio_file overall_lang idx seg w)))
                 (seg_end (fst (process_segment E a td audio_file overall_lang idx seg w)))
                 (choose_lang (fst (classify_text E (strip (get_str (raw_text seg))) w)) overall_lang)
                 (strip (get_str (raw_text seg)))
                 (snd (classify_text E (strip (get_str (raw_text seg))) w)))"]
  unfolding process_segment_translation [symmetric]
  by (auto intro: translation_ok_None translation_ok_strip)

lemma process_segments_translation_ok:
  "list_all translation_ok processed \<Longrightarrow>
   list_all translation_ok (fst (process_segments E a td audio_file overall_lang idx segs processed w))"
proof (induction segs arbitrary: idx processed w)
  case Nil
  then show ?case by simp
next
  case (Cons seg segs)
  obtain d w1 where r: "process_segment E a td audio_file overall_lang idx seg w = (d, w1)"
    by (cases "process_segment E a td audio_file overall_lang idx seg w")
  have "translation_ok d"
    using process_segment_translation_ok [of E a td audio_file overall_lang idx seg w] r by simp
  with Cons.prems have "list_all translation_ok (processed @ [d])" by simp
  then show ?case using r by (simp add: Cons.IH)
qed


lemma files_vprint: "files (vprint v m w) = files w"
  by (simp add: vprint_def files_log_event)

lemma trace_vprint: "trace (vprint v m w) = trace w @ (if v then [Print m] else [])"
  by (simp add: vprint_def trace_log_event)

lemma files_rmtree: "files (rmtree td w) p = (if startswith p (dir_prefix td) then None else files w p)"
  by (simp add: rmtree_def)


lemma trace_extract_audio_segment:
  "trace (snd (extract_audio_segment E i out s f w)) = trace w @ [FfmpegSlice i out s f]"
  by (simp add: extract_audio_segment_def Let_def trace_put_file trace_log_event split: option.splits)


lemma trace_transcribe_segment_audio:
  "trace (snd (transcribe_segment_audio E p l t v w)) =
     trace w @ (if v then [Print (MsgWhisperCall l t)] else []) @ [Whisper p (truthy_opt l) (truthy_opt t)]"
  by (simp add: transcribe_segment_audio_def Let_def trace_log_event trace_vprint)

lemma transcribe_segment_audio_fst_indep:
  "fst (transcribe_segment_audio E p l t v w) = fst (transcribe_segment_audio E p l t v' w')"
  by (simp add: transcribe_segment_audio_def Let_def)


lemma trace_cleanup_slice:
  "trace (cleanup_slice E p w) = trace w @ (if files w p \<noteq> None then [Remove p] else [])"
  by (simp add: cleanup_slice_def Let_def trace_log_event)

lemma case_slice:
  "(case extract_audio_segment E i out s f w of
      (Some CalledProcessError, w2) \<Rightarrow> A w2
    | (None, w2) \<Rightarrow> B w2)
   = (if exit_ok (ffmpeg_cut E i out s f) then B (snd (extract_audio_segment E i out s f w))
      else A (snd (extract_audio_segment E i out s f w)))"
  by (simp add: extract_audio_segment_def Let_def)

lemma refine_block_if:
  "refine_block E a td audio_file idx start fin chosen_lang txt w =
     (if refine_per_segment a \<and> (chosen_lang = ''pt'' \<or> chosen_lang = ''es'')
      then
        (let p = path_join td (''segment_'' @ str_nat (idx + 1) @ ''.wav'');
             w2 = snd (extract_audio_segment E audio_file p start fin
                         (vprint (verbose a) (MsgRefining (idx + 1) start fin chosen_lang) w))
         in if exit_ok (ffmpeg_cut E audio_file p start fin)
            then (let r = transcribe_segment_audio E p (Some chosen_lang) None (verbose a) w2
                  in (if fst r \<noteq> [] then fst r else txt, cleanup_slice E p (snd r)))
            else (txt, cleanup_slice E p (vprint (verbose a) MsgRefineExtractFailed w2)))
      else (txt, w))"
  by (simp only: refine_block_def Let_def case_slice) (auto simp: split_beta)

lemma translate_block_if:
  "translate_block E a td audio_file idx start fin w =
     (if \<not> no_translate a
      then
        (let p = path_join td (''segment_'' @ str_nat (idx + 1) @ ''_t.wav'');
             w2 = snd (extract_audio_segment E audio_file p start fin
                         (vprint (verbose a) (MsgTranslating (idx + 1)) w))
         in if exit_ok (ffmpeg_cut E audio_file p start fin)
            then (let r = transcribe_segment_audio E p None (Some ''translate'') (verbose a) w2
                  in (if fst r \<noteq> [] then Some (fst r) else None, cleanup_slice E p (snd r)))
            else (None, cleanup_slice E p (vprint (verbose a) MsgTranslateExtractFailed w2)))
      else (None, w))"
  by (simp only: translate_block_def Let_def case_slice) (simp add: split_beta)

lemma process_segment_pair:
  "process_segment E a td audio_file overall_lang idx seg w =
     (let start = (case raw_start seg of None \<Rightarrow> 0 | Some x \<Rightarrow> x);
          fin = (case raw_end seg of None \<Rightarrow> start + 0.5 | Some x \<Rightarrow> x);
          txt = strip (get_str (raw_text seg));
          c = classify_text E txt w;
          chosen_lang = choose_lang (fst c) overall_lang;
          r = refine_block E a td audio_file idx start fin chosen_lang txt (snd c);
          t = translate_block E a td audio_file idx start fin (snd r)
      in (\<lparr>seg_start = start, seg_end = fin, seg_lang = Some chosen_lang,
           seg_text = Some (fst r), seg_translation = fst t\<rparr>, snd t))"
  by (simp add: process_segment_def Let_def split_beta)

lemma classify_text_fst_indep: "fst (classify_text E txt w) = fst (classify_text E txt w')"
  by (simp add: classify_text_def detect_lang_of_text_def Let_def split: sum.splits detect_error.splits)

lemma refine_block_fst_indep:
  "fst (refine_block E a td audio_file idx start fin chosen_lang txt w)
     = fst (refine_block E a td audio_file idx start fin chosen_lang txt w')"
  using transcribe_segment_audio_fst_indep
  by (simp add: refine_block_if Let_def) metis

lemma translate_block_fst_indep:
  "fst (translate_block E a td audio_file idx start fin w)
     = fst (translate_block E a td audio_file idx start fin w')"
  using transcribe_segment_audio_fst_indep
  by (simp add: translate_block_if Let_def) metis

lemma process_segment_fst_indep:
  "fst (process_segment E a td audio_file overall_lang idx seg w)
     = fst (process_segment E a td audio_file overall_lang idx seg w')"
  unfolding process_segment_pair Let_def fst_conv
  by (simp add: classify_text_fst_indep [of E _ w w']
        refine_block_fst_indep [of E a td audio_file idx _ _ _ _ "snd (classify_text E _ w)" "snd (classify_text E _ w')"]
        translate_block_fst_indep [of E a td audio_file idx _ _
           "snd (refine_block E a td audio_file idx _ _ _ _ (snd (classify_text E _ w)))"
           "snd (refine_block E a td audio_file idx _ _ _ _ (snd (classify_text E _ w')))"])

lemma process_segments_Cons:
  "process_segments E a td audio_file overall_lang idx (seg # segs) processed w =
     process_segments E a td audio_file overall_lang (Suc idx) segs
       (processed @ [fst (process_segment E a td audio_file overall_lang idx seg w)])
       (snd (process_segment E a td audio_file overall_lang idx seg w))"
  by (simp add: split_beta)

lemma process_segments_fst_indep:
  "fst (process_segments E a td audio_file overall_lang idx segs processed w)
     = fst (process_segments E a td audio_file overall_lang idx segs processed w')"
proof (induction segs arbitrary: idx processed w w')
  case Nil
  show ?case by simp
next
  case (Cons seg segs)
  show ?case
    unfolding process_segments_Cons
      process_segment_fst_indep [of E a td audio_file overall_lang idx seg w w']
    by (rule Cons.IH)
qed

lemma slice_paths_differ:
  "path_join td (''segment_'' @ n @ ''_t.wav'') \<noteq> path_join td (''segment_'' @ n @ ''.wav'')"
  by (simp add: path_join_def startswith_def)

lemma adds_only_iff:
  "adds_only Q w w' \<longleftrightarrow> (\<exists>evs. trace w' = trace w @ evs \<and> list_all Q evs)"
proof
  assume h: "adds_only Q w w'"
  have "trace w' = take (length (trace w)) (trace w') @ drop (length (trace w)) (trace w')"
    by simp
  with h have "trace w' = trace w @ drop (length (trace w)) (trace w')"
    by (simp add: adds_only_def)
  with h show "\<exists>evs. trace w' = trace w @ evs \<and> list_all Q evs"
    unfolding adds_only_def by blast
next
  assume "\<exists>evs. trace w' = trace w @ evs \<and> list_all Q evs"
  then show "adds_only Q w w'" by (auto simp: adds_only_def)
qed

lemma adds_only_trans:
  "adds_only Q w w1 \<Longrightarrow> adds_only Q w1 w2 \<Longrightarrow> adds_only Q w w2"
  unfolding adds_only_iff by auto

lemma classify_text_adds:
  "adds_only (\<lambda>e. \<not> refiner_event p e) w (snd (classify_text E txt w))"
  by (simp add: adds_only_def classify_text_def detect_lang_of_text_def Let_def trace_log_event
        refiner_event_def split: sum.splits detect_error.splits)

lemma translate_block_adds:
  "adds_only (\<lambda>e. \<not> refiner_event (path_join td (''segment_'' @ str_nat (idx + 1) @ ''.wav'')) e) w
     (snd (translate_block E a td audio_file idx start fin w))"
  using slice_paths_differ [of td "str_nat (idx + 1)"]
  by (simp add: adds_only_def translate_block_if Let_def trace_cleanup_slice
        trace_transcribe_segment_audio trace_extract_audio_segment trace_vprint
        refiner_event_def truthy_opt_def)

lemma refine_block_skipped:
  "\<not> (refine_per_segment a \<and> (chosen_lang = ''pt'' \<or> chosen_lang = ''es'')) \<Longrightarrow>
   refine_block E a td audio_file idx start fin chosen_lang txt w = (txt, w)"
  by (auto simp: refine_block_def)

lemma process_segment_snd:
  "snd (process_segment E a td audio_file overall_lang idx seg w) =
     snd (translate_block E a td audio_file idx
            (seg_start (fst (process_segment E a td audio_file overall_lang idx seg w)))
            (seg_end (fst (process_segment E a td audio_file overall_lang idx seg w)))
            (snd (refine_block E a td audio_file idx
               (seg_start (fst (process_segment E a td audio_file overall_lang idx seg w)))
               (seg_end (fst (process_segment E a td audio_file overall_lang idx seg w)))
               (choose_lang (fst (classify_text E (strip (get_str (raw_text seg))) w)) overall_lang)
               (strip (get_str (raw_text seg)))
               (snd (classify_text E (strip (get_str (raw_text seg))) w)))))"
  by (simp add: process_segment_pair Let_def)

lemmas run_eval =
  process_segment_pair classify_text_def detect_lang_of_text_def choose_lang_def
  refine_block_if translate_block_if extract_audio_segment_def transcribe_segment_audio_def
  cleanup_slice_def vprint_def log_event_def put_file_def truthy_opt_def path_join_def
  dir_prefix_def startswith_def strip_def is_space_def get_str_def Let_def

lemma outputs_safe_D:
  assumes "outputs_safe E a" "p \<in> set (output_paths a)"
  shows "\<not> startswith p (dir_prefix (tmpdir E))"
    and "keep_audio a \<Longrightarrow> p \<noteq> abspath E (out_prefix a @ ''.extracted_audio.wav'')"
  using assms by (auto simp: outputs_safe_def list_all_iff)

lemma emit_outputs_files:
  assumes safe: "outputs_safe E a"
  shows "files (emit_outputs E a audio_file processed w) (out_prefix a @ ''.original.vtt'')
           = Some (Text (write_vtt_original_cues 1 processed (''WEBVTT'' @ [nl, nl])))"
    and "\<not> no_translate a \<Longrightarrow>
         files (emit_outputs E a audio_file processed w) (out_prefix a @ ''.en.vtt'')
           = Some (Text (write_vtt_translation_cues 1 processed (''WEBVTT'' @ [nl, nl])))"
    and "files (emit_outputs E a audio_file processed w) (out_prefix a @ ''.original.srt'')
           = Some (Text (write_srt_original_cues 1 processed []))"
    and "\<not> no_translate a \<Longrightarrow>
         files (emit_outputs E a audio_file processed w) (out_prefix a @ ''.en.srt'')
           = Some (Text (write_srt_translation_cues 1 processed []))"
    and "files (emit_outputs E a audio_file processed w) (out_prefix a @ ''.json'')
           = Some (Json processed)"
proof -
  let ?kept = "abspath E (out_prefix a @ ''.extracted_audio.wav'')"
  define w1 where "w1 = vprint (verbose a) (MsgSavedOriginalVtt (out_prefix a @ ''.original.vtt''))
                 (write_vtt_original processed (out_prefix a @ ''.original.vtt'') w)"
  define w2 where "w2 = (if \<not> no_translate a
                then vprint (verbose a) (MsgSavedEnVtt (out_prefix a @ ''.en.vtt''))
                       (write_vtt_translation processed (out_prefix a @ ''.en.vtt'') w1)
                else w1)"
  define w3 where "w3 = vprint (verbose a) (MsgSavedOriginalSrt (out_prefix a @ ''.original.srt''))
                 (write_srt_original processed (out_prefix a @ ''.original.srt'') w2)"
  define w4 where "w4 = (if \<not> no_translate a
                then vprint (verbose a) (MsgSavedEnSrt (out_prefix a @ ''.en.srt''))
                       (write_srt_translation processed (out_prefix a @ ''.en.srt'') w3)
                else w3)"
  define w5 where "w5 = vprint (verbose a) (MsgSavedJson (out_prefix a @ ''.json''))
                 (put_file (out_prefix a @ ''.json'') (Json processed) w4)"
  define w6 where "w6 = (if keep_audio a
                then vprint (verbose a) (MsgKeptAudio ?kept)
                       (case files (log_event (Copy audio_file ?kept) w5) audio_file of
                          None \<Rightarrow> log_event (Copy audio_file ?kept) w5
                        | Some c \<Rightarrow> put_file ?kept c (log_event (Copy audio_file ?kept) w5))
                else w5)"
  have e: "emit_outputs E a audio_file processed w = w6"
    unfolding emit_outputs_def Let_def w6_def w5_def w4_def w3_def w2_def w1_def by (rule refl)
  have f1: "files w1 q = (if q = out_prefix a @ ''.original.vtt''
                          then Some (Text (write_vtt_original_cues 1 processed (''WEBVTT'' @ [nl, nl])))
                          else files w q)" for q
    by (simp add: w1_def files_vprint write_vtt_original_def files_put_file)
  have f2: "files w2 q = (if \<not> no_translate a \<and> q = out_prefix a @ ''.en.vtt''
                          then Some (Text (write_vtt_translation_cues 1 processed (''WEBVTT'' @ [nl, nl])))
                          else files w1 q)" for q
    by (simp add: w2_def files_vprint write_vtt_translation_def files_put_file)
  have f3: "files w3 q = (if q = out_prefix a @ ''.original.srt''
                          then Some (Text (write_srt_original_cues 1 processed []))
                          else files w2 q)" for q
    by (simp add: w3_def files_vprint write_srt_original_def files_put_file)
  have f4: "files w4 q = (if \<not> no_translate a \<and> q = out_prefix a @ ''.en.srt''
                          then Some (Text (write_srt_translation_cues 1 processed []))
                          else files w3 q)" for q
    by (simp add: w4_def files_vprint write_srt_translation_def files_put_file)
  have f5: "files w5 q = (if q = out_prefix a @ ''.json'' then Some (Json processed) else files w4 q)" for q
    by (simp add: w5_def files_vprint files_put_file)
  have f6: "q \<in> set (output_paths a) \<Longrightarrow> files w6 q = files w5 q" for q
  proof (cases "keep_audio a")
    case False
    then show ?thesis by (simp add: w6_def)
  next
    case True
    assume q: "q \<in> set (output_paths a)"
    have "q \<noteq> ?kept" using safe q True by (rule outputs_safe_D(2))
    with True show ?thesis
      by (simp add: w6_def files_vprint files_put_file files_log_event split: option.splits)
  qed
  show "files (emit_outputs E a audio_file processed w) (out_prefix a @ ''.original.vtt'')
           = Some (Text (write_vtt_original_cues 1 processed (''WEBVTT'' @ [nl, nl])))"
    unfolding e by (subst f6) (simp_all add: output_paths_def f5 f4 f3 f2 f1)
  show "\<not> no_translate a \<Longrightarrow>
         files (emit_outputs E a audio_file processed w) (out_prefix a @ ''.en.vtt'')
           = Some (Text (write_vtt_translation_cues 1 processed (''WEBVTT'' @ [nl, nl])))"
    unfolding e by (subst f6) (simp_all add: output_paths_def f5 f4 f3 f2 f1)
  show "files (emit_outputs E a audio_file processed w) (out_prefix a @ ''.original.srt'')
           = Some (Text (write_srt_original_cues 1 processed []))"
    unfolding e by (subst f6) (simp_all add: output_paths_def f5 f4 f3 f2 f1)
  show "\<not> no_translate a \<Longrightarrow>
         files (emit_outputs E a audio_file processed w) (out_prefix a @ ''.en.srt'')
           = Some (Text (write_srt_translation_cues 1 processed []))"
    unfolding e by (subst f6) (simp_all add: output_paths_def f5 f4 f3 f2 f1)
  show "files (emit_outputs E a audio_file processed w) (out_prefix a @ ''.json'')
           = Some (Json processed)"
    unfolding e by (subst f6) (simp_all add: output_paths_def f5 f4 f3 f2 f1)
qed

lemma main_success:
  assumes "files w (video a) \<noteq> None"
    and "exit_ok (ffmpeg_full E (video a) (path_join (tmpdir E) ''extracted_audio.wav''))"
  shows "\<exists>w7. main E a w =
           (None, vprint (verbose a) MsgDone
                    (rmtree (tmpdir E)
                       (emit_outputs E a (path_join (tmpdir E) ''extracted_audio.wav'')
                          (processed_segments E a) w7)))"
proof -
  let ?audio = "path_join (tmpdir E) ''extracted_audio.wav''"
  define w3 where "w3 = vprint (verbose a) (MsgExtractingAudio ?audio)
               (log_event (LoadModel (model a)) (vprint (verbose a) (MsgLoadingModel (model a)) w))"
  define w4 where "w4 = snd (extract_audio E (video a) ?audio w3)"
  define w5 where "w5 = snd (transcribe_full_audio E ?audio (verbose a) w4)"
  define w6 where "w6 = vprint (verbose a)
                          (MsgInitialSegments (length (base_segments E)) (overall_language E)) w5"
  define w7 where "w7 = snd (process_segments E a (tmpdir E) ?audio (overall_language E) 0
                               (base_segments E) [] w6)"
  have ea: "extract_audio E (video a) ?audio w3 = (None, w4)"
    using assms(2) by (simp add: extract_audio_def Let_def w4_def)
  have tf: "transcribe_full_audio E ?audio (verbose a) w4
              = ((base_segments E, overall_language E), w5)"
    by (simp add: transcribe_full_audio_def base_segments_def overall_language_def Let_def w5_def)
  have "fst (process_segments E a (tmpdir E) ?audio (overall_language E) 0 (base_segments E) [] w6)
          = processed_segments E a"
    unfolding processed_segments_def by (rule process_segments_fst_indep)
  then have ps: "process_segments E a (tmpdir E) ?audio (overall_language E) 0 (base_segments E) [] w6
                   = (processed_segments E a, w7)"
    by (simp add: prod_eq_iff w7_def)
  have nv: "(files w (video a) = None) = False" using assms(1) by simp
  have "main E a w =
           (None, vprint (verbose a) MsgDone
                    (rmtree (tmpdir E)
                       (emit_outputs E a ?audio (processed_segments E a) w7)))"
    unfolding main_def Let_def w3_def [symmetric]
    by (simp add: nv ea tf w6_def [symmetric] ps)
  then show ?thesis by blast
qed

lemma main_outputs:
  assumes "files w (video a) \<noteq> None"
    and "exit_ok (ffmpeg_full E (video a) (path_join (tmpdir E) ''extracted_audio.wav''))"
    and safe: "outputs_safe E a"
  shows "fst (main E a w) = None"
    and "files (snd (main E a w)) (out_prefix a @ ''.original.vtt'') =
           Some (Text (spec_track (''WEBVTT'' @ [nl, nl]) seconds_to_vtt_timestamp spec_original_body
                         (processed_segments E a)))"
    and "\<not> no_translate a \<Longrightarrow>
         files (snd (main E a w)) (out_prefix a @ ''.en.vtt'') =
           Some (Text (spec_track (''WEBVTT'' @ [nl, nl]) seconds_to_vtt_timestamp spec_translation_body
                         (processed_segments E a)))"
    and "files (snd (main E a w)) (out_prefix a @ ''.original.srt'') =
           Some (Text (spec_track [] seconds_to_srt_timestamp spec_original_body (processed_segments E a)))"
    and "\<not> no_translate a \<Longrightarrow>
         files (snd (main E a w)) (out_prefix a @ ''.en.srt'') =
           Some (Text (spec_track [] seconds_to_srt_timestamp spec_translation_body (processed_segments E a)))"
    and "files (snd (main E a w)) (out_prefix a @ ''.json'') = Some (Json (processed_segments E a))"
proof -
  let ?audio = "path_join (tmpdir E) ''extracted_audio.wav''"
  from main_success [OF assms(1,2)] obtain w7 where
    m: "main E a w = (None, vprint (verbose a) MsgDone
                         (rmtree (tmpdir E) (emit_outputs E a ?audio (processed_segments E a) w7)))"
    by blast
  have keep: "files (snd (main E a w)) q = files (emit_outputs E a ?audio (processed_segments E a) w7) q"
    if "q \<in> set (output_paths a)" for q
    using outputs_safe_D(1) [OF safe that] by (simp add: m files_vprint files_rmtree)
  show "fst (main E a w) = None" by (simp add: m)
  show "files (snd (main E a w)) (out_prefix a @ ''.original.vtt'') =
           Some (Text (spec_track (''WEBVTT'' @ [nl, nl]) seconds_to_vtt_timestamp spec_original_body
                         (processed_segments E a)))"
    by (subst keep) (simp_all add: output_paths_def emit_outputs_files(1) [OF safe]
          write_vtt_original_cues_eq spec_track_def)
  show "\<not> no_translate a \<Longrightarrow>
         files (snd (main E a w)) (out_prefix a @ ''.en.vtt'') =
           Some (Text (spec_track (''WEBVTT'' @ [nl, nl]) seconds_to_vtt_timestamp spec_translation_body
                         (processed_segments E a)))"
    by (subst keep) (simp_all add: output_paths_def emit_outputs_files(2) [OF safe]
          write_vtt_translation_cues_eq spec_track_def)
  show "files (snd (main E a w)) (out_prefix a @ ''.original.srt'') =
           Some (Text (spec_track [] seconds_to_srt_timestamp spec_original_body (processed_segments E a)))"
    by (subst keep) (simp_all add: output_paths_def emit_outputs_files(3) [OF safe]
          write_srt_original_cues_eq spec_track_def)
  show "\<not> no_translate a \<Longrightarrow>
         files (snd (main E a w)) (out_prefix a @ ''.en.srt'') =
           Some (Text (spec_track [] seconds_to_srt_timestamp spec_translation_body (processed_segments E a)))"
    by (subst keep) (simp_all add: output_paths_def emit_outputs_files(4) [OF safe]
          write_srt_translation_cues_eq spec_track_def)
  show "files (snd (main E a w)) (out_prefix a @ ''.json'') = Some (Json (processed_segments E a))"
    by (subst keep) (simp_all add: output_paths_def emit_outputs_files(5) [OF safe])
qed












section \<open>The model run on the concrete inputs\<close>

lemmas demo_eval =
  run_eval processed_segments_def base_segments_def overall_language_def transcribe_full_audio_def
  demo_args_def demo_world_def empty_world_def str_nat.simps digit_char_def


lemma french_env_processed:
  "processed_segments french_env demo_args =
     [\<lparr>seg_start = 0, seg_end = 2, seg_lang = Some ''fr'', seg_text = Some ''Bonjour'',
       seg_translation = Some ''Good morning''\<rparr>]"
  by (simp add: demo_eval french_env_def)

lemma demo_run_ok:
  "files demo_world (video demo_args) \<noteq> None
   \<and> exit_ok (ffmpeg_full failing_env (video demo_args) (path_join (tmpdir failing_env) ''extracted_audio.wav''))
   \<and> outputs_safe failing_env demo_args"
  "files demo_world (video demo_args) \<noteq> None
   \<and> exit_ok (ffmpeg_full french_env (video demo_args) (path_join (tmpdir french_env) ''extracted_audio.wav''))
   \<and> outputs_safe french_env demo_args"
  by (simp_all add: demo_world_def demo_args_def failing_env_def french_env_def outputs_safe_def
        output_paths_def startswith_def dir_prefix_def)

section \<open>Lemmas on trimming, the timing line and the language choice\<close>

lemma strip_decompose:
  "\<exists>l r. s = l @ strip s @ r \<and> list_all is_space l \<and> list_all is_space r"
proof -
  define u where "u = dropWhile is_space s"
  have a: "s = takeWhile is_space s @ u" by (simp add: u_def)
  have "strip s @ rev (takeWhile is_space (rev u))
          = rev (takeWhile is_space (rev u) @ dropWhile is_space (rev u))"
    unfolding strip_def u_def by (simp only: rev_append)
  also have "\<dots> = u" by (simp only: takeWhile_dropWhile_id rev_rev_ident)
  finally have b: "u = strip s @ rev (takeWhile is_space (rev u))" by (rule sym)
  have c: "list_all is_space (takeWhile is_space s)"
    by (simp add: list_all_iff) (meson set_takeWhileD)
  have d: "list_all is_space (rev (takeWhile is_space (rev u)))"
    by (simp add: list_all_iff) (meson set_takeWhileD)
  have "s = takeWhile is_space s @ strip s @ rev (takeWhile is_space (rev u))"
    using a b by simp
  with c d show ?thesis by blast
qed

lemma strip_empty_iff: "strip s = [] \<longleftrightarrow> list_all is_space s"
proof
  assume e: "strip s = []"
  from strip_decompose [of s] obtain l r
    where "s = l @ strip s @ r" "list_all is_space l" "list_all is_space r" by blast
  with e show "list_all is_space s" by (metis append_Nil list_all_append)
next
  assume "list_all is_space s"
  then have d: "dropWhile is_space s = []" by (induction s) simp_all
  show "strip s = []" unfolding strip_def d by simp
qed

lemma spec_translation_body_trimmed:
  "spec_translation_body s \<noteq> [] \<Longrightarrow>
     \<not> is_space (hd (spec_translation_body s)) \<and> \<not> is_space (last (spec_translation_body s))"
  by (auto simp: spec_translation_body_def strip_no_outer_space split: option.splits if_splits)

lemma timestamp_shape:
  assumes nn: "0 \<le> seconds"
  shows "\<exists>H M S F.
        seconds_to_vtt_timestamp seconds = H @ '':'' @ M @ '':'' @ S @ ''.'' @ F
      \<and> seconds_to_srt_timestamp seconds = H @ '':'' @ M @ '':'' @ S @ '','' @ F
      \<and> list_all is_digit H \<and> list_all is_digit M \<and> list_all is_digit S \<and> list_all is_digit F
      \<and> 2 \<le> length H \<and> length M = 2 \<and> length S = 2 \<and> 3 \<le> length F"
proof -
  define t where "t = \<lfloor>seconds\<rfloor>"
  define h where "h = t div 3600"
  define m where "m = (t div 60) mod 60"
  define s where "s = t mod 60"
  define ms where "ms = py_round ((seconds - of_int t) * 1000)"
  let ?H = "format_d 2 h" and ?M = "format_d 2 m" and ?S = "format_d 2 s" and ?F = "format_d 3 ms"
  have t0: "0 \<le> t" using nn by (simp add: t_def)
  have h0: "0 \<le> h" using t0 by (simp add: h_def pos_imp_zdiv_nonneg_iff)
  have m0: "0 \<le> m" "m < 60" by (simp_all add: m_def)
  have s0: "0 \<le> s" "s < 60" by (simp_all add: s_def)
  have fr: "0 \<le> seconds - of_int t" unfolding t_def by linarith
  have ms0: "0 \<le> ms" unfolding ms_def using fr by (intro py_round_nonneg) simp
  have c1: "seconds_to_vtt_timestamp seconds = ?H @ '':'' @ ?M @ '':'' @ ?S @ ''.'' @ ?F"
    by (simp add: seconds_to_vtt_timestamp_def Let_def t_def h_def m_def s_def ms_def)
  have c2: "seconds_to_srt_timestamp seconds = ?H @ '':'' @ ?M @ '':'' @ ?S @ '','' @ ?F"
    by (simp add: seconds_to_srt_timestamp_def Let_def t_def h_def m_def s_def ms_def)
  have d1: "list_all is_digit ?H" using h0 by (rule format_d_nonneg)
  have d2: "list_all is_digit ?M" using m0(1) by (rule format_d_nonneg)
  have d3: "list_all is_digit ?S" using s0(1) by (rule format_d_nonneg)
  have d4: "list_all is_digit ?F" using ms0 by (rule format_d_nonneg)
  have l1: "2 \<le> length ?H" using format_d_nonneg(3) [OF h0, of 2] by simp
  have l2: "length ?M = 2"
  proof -
    have "nat m < 100" using m0 by simp
    then have "length (str_nat (nat m)) \<le> 2" by (rule str_nat_length_lt100)
    then show ?thesis using format_d_nonneg(3) [OF m0(1), of 2] by simp
  qed
  have l3: "length ?S = 2"
  proof -
    have "nat s < 100" using s0 by simp
    then have "length (str_nat (nat s)) \<le> 2" by (rule str_nat_length_lt100)
    then show ?thesis using format_d_nonneg(3) [OF s0(1), of 2] by simp
  qed
  have l4: "3 \<le> length ?F" using format_d_nonneg(3) [OF ms0, of 3] by simp
  note facts = c1 c2 d1 d2 d3 d4 l1 l2 l3 l4
  show ?thesis
    apply (rule exI [of _ "?H"])
    apply (rule exI [of _ "?M"])
    apply (rule exI [of _ "?S"])
    apply (rule exI [of _ "?F"])
    apply (intro conjI)
    apply (fact facts)+
    done
qed

lemma choose_lang_cases:
  "detected \<noteq> [] \<Longrightarrow> choose_lang detected overall_lang = detected"
  "choose_lang [] overall_lang = (case overall_lang of None \<Rightarrow> [] | Some l \<Rightarrow> l)"
  by (simp_all add: choose_lang_def split: option.splits)

lemma timing_line_shape:
  assumes "0 \<le> seg_start s" "0 \<le> seg_end s"
  shows "\<exists>H1 M1 S1 F1 H2 M2 S2 F2.
        spec_cue seconds_to_vtt_timestamp n s b =
          str_nat n @ [nl] @ H1 @ '':'' @ M1 @ '':'' @ S1 @ ''.'' @ F1 @ '' --> ''
            @ H2 @ '':'' @ M2 @ '':'' @ S2 @ ''.'' @ F2 @ [nl] @ b @ [nl, nl]
      \<and> spec_cue seconds_to_srt_timestamp n s b =
          str_nat n @ [nl] @ H1 @ '':'' @ M1 @ '':'' @ S1 @ '','' @ F1 @ '' --> ''
            @ H2 @ '':'' @ M2 @ '':'' @ S2 @ '','' @ F2 @ [nl] @ b @ [nl, nl]
      \<and> list_all is_digit (H1 @ M1 @ S1 @ F1 @ H2 @ M2 @ S2 @ F2)
      \<and> 2 \<le> length H1 \<and> length M1 = 2 \<and> length S1 = 2 \<and> 3 \<le> length F1
      \<and> 2 \<le> length H2 \<and> length M2 = 2 \<and> length S2 = 2 \<and> 3 \<le> length F2"
proof -
  from timestamp_shape [OF assms(1)] obtain H1 M1 S1 F1 where
    a: "seconds_to_vtt_timestamp (seg_start s) = H1 @ '':'' @ M1 @ '':'' @ S1 @ ''.'' @ F1"
       "seconds_to_srt_timestamp (seg_start s) = H1 @ '':'' @ M1 @ '':'' @ S1 @ '','' @ F1"
    and da: "list_all is_digit H1" "list_all is_digit M1" "list_all is_digit S1" "list_all is_digit F1"
    and la: "2 \<le> length H1" "length M1 = 2" "length S1 = 2" "3 \<le> length F1"
    by blast
  from timestamp_shape [OF assms(2)] obtain H2 M2 S2 F2 where
    b: "seconds_to_vtt_timestamp (seg_end s) = H2 @ '':'' @ M2 @ '':'' @ S2 @ ''.'' @ F2"
       "seconds_to_srt_timestamp (seg_end s) = H2 @ '':'' @ M2 @ '':'' @ S2 @ '','' @ F2"
    and db: "list_all is_digit H2" "list_all is_digit M2" "list_all is_digit S2" "list_all is_digit F2"
    and lb: "2 \<le> length H2" "length M2 = 2" "length S2 = 2" "3 \<le> length F2"
    by blast
  have v: "spec_cue seconds_to_vtt_timestamp n s b =
          str_nat n @ [nl] @ H1 @ '':'' @ M1 @ '':'' @ S1 @ ''.'' @ F1 @ '' --> ''
            @ H2 @ '':'' @ M2 @ '':'' @ S2 @ ''.'' @ F2 @ [nl] @ b @ [nl, nl]"
    by (simp add: spec_cue_def a(1) b(1))
  have r: "spec_cue seconds_to_srt_timestamp n s b =
          str_nat n @ [nl] @ H1 @ '':'' @ M1 @ '':'' @ S1 @ '','' @ F1 @ '' --> ''
            @ H2 @ '':'' @ M2 @ '':'' @ S2 @ '','' @ F2 @ [nl] @ b @ [nl, nl]"
    by (simp add: spec_cue_def a(2) b(2))
  have d: "list_all is_digit (H1 @ M1 @ S1 @ F1 @ H2 @ M2 @ S2 @ F2)"
    using da db by simp
  note facts = v r d la lb
  show ?thesis
    apply (rule exI [of _ H1])
    apply (rule exI [of _ M1])
    apply (rule exI [of _ S1])
    apply (rule exI [of _ F1])
    apply (rule exI [of _ H2])
    apply (rule exI [of _ M2])
    apply (rule exI [of _ S2])
    apply (rule exI [of _ F2])
    apply (intro conjI)
    apply (fact facts)+
    done
qed

lemma classify_text_two_letter:
  assumes h: "\<forall>lang. detect E txt = Inr lang \<longrightarrow>
          length lang = 2 \<or> startswith lang ''pt'' \<or> startswith lang ''es''"
  shows "length (fst (classify_text E txt w)) = 0 \<or> length (fst (classify_text E txt w)) = 2"
proof (cases "detect E txt")
  case (Inl e)
  then show ?thesis
    by (simp add: classify_text_def detect_lang_of_text_def Let_def split: detect_error.splits)
next
  case (Inr lang)
  with h have "length lang = 2 \<or> startswith lang ''pt'' \<or> startswith lang ''es''" by simp
  with Inr show ?thesis
    by (auto simp: classify_text_def detect_lang_of_text_def Let_def)
qed

section \<open>Verified properties\<close>

text \<open>
  C3. For every non-negative seconds value both formatters print \<open>HH:MM:SS\<close>, then the
  separator (a period for VTT, a comma for SRT), then the milliseconds: every field is a
  string of decimal digits, minutes and seconds have exactly two digits and are below 60,
  the hours have at least two digits and are not capped (hours, minutes and seconds
  together are the whole seconds), the milliseconds field has at least three digits and
  is the fractional part times 1000 rounded to a nearest integer. A rounding result of
  1000 is printed as it is (four digits), with no carry into the seconds. In particular
  \<open>0.0\<close> gives \<open>00:00:00.000\<close> and \<open>00:00:00,000\<close>, \<open>3661.5\<close> gives
  \<open>01:01:01.500\<close>, \<open>0.9996\<close> gives \<open>00:00:00.1000\<close> and 100 hours give
  \<open>100:00:00.000\<close>.
\<close>

theorem timestamp_format:
  "(0 \<le> seconds \<longrightarrow>
     (\<exists>H M S F.
        seconds_to_vtt_timestamp seconds = H @ '':'' @ M @ '':'' @ S @ ''.'' @ F
      \<and> seconds_to_srt_timestamp seconds = H @ '':'' @ M @ '':'' @ S @ '','' @ F
      \<and> list_all is_digit H \<and> list_all is_digit M \<and> list_all is_digit S \<and> list_all is_digit F
      \<and> 2 \<le> length H \<and> length M = 2 \<and> length S = 2 \<and> 3 \<le> length F
      \<and> digits_value M < 60 \<and> digits_value S < 60
      \<and> int (digits_value H) * 3600 + int (digits_value M) * 60 + int (digits_value S) = \<lfloor>seconds\<rfloor>
      \<and> \<bar>real (digits_value F) - (seconds - of_int \<lfloor>seconds\<rfloor>) * 1000\<bar> \<le> 1 / 2
      \<and> digits_value F \<le> 1000
      \<and> (digits_value F < 1000 \<longrightarrow> length F = 3)))
   \<and> seconds_to_vtt_timestamp 0 = ''00:00:00.000''
   \<and> seconds_to_srt_timestamp 0 = ''00:00:00,000''
   \<and> seconds_to_vtt_timestamp 3661.5 = ''01:01:01.500''
   \<and> seconds_to_srt_timestamp 3661.5 = ''01:01:01,500''
   \<and> seconds_to_vtt_timestamp 0.9996 = ''00:00:00.1000''
   \<and> seconds_to_srt_timestamp 0.9996 = ''00:00:00,1000''
   \<and> seconds_to_vtt_timestamp 360000 = ''100:00:00.000''"
proof (intro conjI impI)
  assume nn: "0 \<le> seconds"
  define t where "t = \<lfloor>seconds\<rfloor>"
  define h where "h = t div 3600"
  define m where "m = (t div 60) mod 60"
  define s where "s = t mod 60"
  define ms where "ms = py_round ((seconds - of_int t) * 1000)"
  let ?H = "format_d 2 h" and ?M = "format_d 2 m" and ?S = "format_d 2 s" and ?F = "format_d 3 ms"
  have t0: "0 \<le> t" using nn by (simp add: t_def)
  have h0: "0 \<le> h" using t0 by (simp add: h_def pos_imp_zdiv_nonneg_iff)
  have m0: "0 \<le> m" "m < 60" by (simp_all add: m_def)
  have s0: "0 \<le> s" "s < 60" by (simp_all add: s_def)
  have fr: "0 \<le> seconds - of_int t" "seconds - of_int t < 1" unfolding t_def by linarith+
  have ms0: "0 \<le> ms" unfolding ms_def using fr by (intro py_round_nonneg) simp
  have ms1: "ms \<le> 1000"
  proof -
    have "(seconds - of_int t) * 1000 \<le> of_int 1000" using fr by simp
    then show ?thesis unfolding ms_def by (rule py_round_le)
  qed
  have c1: "seconds_to_vtt_timestamp seconds = ?H @ '':'' @ ?M @ '':'' @ ?S @ ''.'' @ ?F"
    by (simp add: seconds_to_vtt_timestamp_def Let_def t_def h_def m_def s_def ms_def)
  have c2: "seconds_to_srt_timestamp seconds = ?H @ '':'' @ ?M @ '':'' @ ?S @ '','' @ ?F"
    by (simp add: seconds_to_srt_timestamp_def Let_def t_def h_def m_def s_def ms_def)
  have d1: "list_all is_digit ?H" using h0 by (rule format_d_nonneg)
  have d2: "list_all is_digit ?M" using m0(1) by (rule format_d_nonneg)
  have d3: "list_all is_digit ?S" using s0(1) by (rule format_d_nonneg)
  have d4: "list_all is_digit ?F" using ms0 by (rule format_d_nonneg)
  have v1: "digits_value ?H = nat h" using h0 by (rule format_d_nonneg)
  have v2: "digits_value ?M = nat m" using m0(1) by (rule format_d_nonneg)
  have v3: "digits_value ?S = nat s" using s0(1) by (rule format_d_nonneg)
  have v4: "digits_value ?F = nat ms" using ms0 by (rule format_d_nonneg)
  have l1: "2 \<le> length ?H" using format_d_nonneg(3) [OF h0, of 2] by simp
  have l2: "length ?M = 2"
  proof -
    have "nat m < 100" using m0 by simp
    then have "length (str_nat (nat m)) \<le> 2" by (rule str_nat_length_lt100)
    then show ?thesis using format_d_nonneg(3) [OF m0(1), of 2] by simp
  qed
  have l3: "length ?S = 2"
  proof -
    have "nat s < 100" using s0 by simp
    then have "length (str_nat (nat s)) \<le> 2" by (rule str_nat_length_lt100)
    then show ?thesis using format_d_nonneg(3) [OF s0(1), of 2] by simp
  qed
  have l4: "3 \<le> length ?F" using format_d_nonneg(3) [OF ms0, of 3] by simp
  have b2: "digits_value ?M < 60" using m0 by (simp add: v2)
  have b3: "digits_value ?S < 60" using s0 by (simp add: v3)
  have e: "int (digits_value ?H) * 3600 + int (digits_value ?M) * 60 + int (digits_value ?S) = \<lfloor>seconds\<rfloor>"
  proof -
    have "h * 3600 + m * 60 + s = t" unfolding h_def m_def s_def by (rule hms_decompose)
    then show ?thesis using h0 m0(1) s0(1) by (simp add: v1 v2 v3 flip: t_def)
  qed
  have r: "\<bar>real (digits_value ?F) - (seconds - of_int \<lfloor>seconds\<rfloor>) * 1000\<bar> \<le> 1 / 2"
  proof -
    have "real (nat ms) = of_int ms" using ms0 by simp
    then show ?thesis
      using py_round_nearest [of "(seconds - of_int t) * 1000"]
      by (simp only: v4 ms_def [symmetric] t_def [symmetric])
  qed
  have b4: "digits_value ?F \<le> 1000" using ms0 ms1 by (simp add: v4)
  have l5: "digits_value ?F < 1000 \<longrightarrow> length ?F = 3"
  proof
    assume "digits_value ?F < 1000"
    then have "nat ms < 1000" by (simp add: v4)
    then have "length (str_nat (nat ms)) \<le> 3" by (rule str_nat_length_lt1000)
    then show "length ?F = 3" using format_d_nonneg(3) [OF ms0, of 3] by simp
  qed
  note facts = c1 c2 d1 d2 d3 d4 l1 l2 l3 l4 b2 b3 e r b4 l5
  show "\<exists>H M S F.
        seconds_to_vtt_timestamp seconds = H @ '':'' @ M @ '':'' @ S @ ''.'' @ F
      \<and> seconds_to_srt_timestamp seconds = H @ '':'' @ M @ '':'' @ S @ '','' @ F
      \<and> list_all is_digit H \<and> list_all is_digit M \<and> list_all is_digit S \<and> list_all is_digit F
      \<and> 2 \<le> length H \<and> length M = 2 \<and> length S = 2 \<and> 3 \<le> length F
      \<and> digits_value M < 60 \<and> digits_value S < 60
      \<and> int (digits_value H) * 3600 + int (digits_value M) * 60 + int (digits_value S) = \<lfloor>seconds\<rfloor>
      \<and> \<bar>real (digits_value F) - (seconds - of_int \<lfloor>seconds\<rfloor>) * 1000\<bar> \<le> 1 / 2
      \<and> digits_value F \<le> 1000
      \<and> (digits_value F < 1000 \<longrightarrow> length F = 3)"
    apply (rule exI [of _ "?H"])
    apply (rule exI [of _ "?M"])
    apply (rule exI [of _ "?S"])
    apply (rule exI [of _ "?F"])
    apply (intro conjI)
    apply (fact facts)+
    done
qed (simp_all only: vtt_examples srt_examples)

theorem timestamp_format_witness:
  "(0::real) \<le> 0.9996 \<and>
   (\<exists>H M S F.
        seconds_to_vtt_timestamp 0.9996 = H @ '':'' @ M @ '':'' @ S @ ''.'' @ F
      \<and> seconds_to_srt_timestamp 0.9996 = H @ '':'' @ M @ '':'' @ S @ '','' @ F
      \<and> list_all is_digit H \<and> list_all is_digit M \<and> list_all is_digit S \<and> list_all is_digit F
      \<and> 2 \<le> length H \<and> length M = 2 \<and> length S = 2 \<and> 3 \<le> length F
      \<and> digits_value M < 60 \<and> digits_value S < 60
      \<and> int (digits_value H) * 3600 + int (digits_value M) * 60 + int (digits_value S) = \<lfloor>0.9996::real\<rfloor>
      \<and> \<bar>real (digits_value F) - (0.9996 - of_int \<lfloor>0.9996::real\<rfloor>) * 1000\<bar> \<le> 1 / 2
      \<and> digits_value F \<le> 1000
      \<and> (digits_value F < 1000 \<longrightarrow> length F = 3))"
  (is "_ \<and> ?P")
proof
  show h: "(0::real) \<le> 0.9996" by simp
  from timestamp_format [of "0.9996"] have "(0::real) \<le> 0.9996 \<longrightarrow> ?P" by (rule conjunct1)
  with h show ?P by (rule rev_mp)
qed

text \<open>
  C1. The translation-track emitters (VTT and SRT) write, for every segment of the list,
  a cue whose body is the trimmed translation when a translation is present and
  non-empty after trimming, and the segment's trimmed text otherwise; so the body is
  never empty when the trimmed text is non-empty. Trimming removes blanks at the two
  ends and nothing else: a string is blanks, its trimmed form, blanks; a non-empty
  trimmed form (and so a non-empty cue body) neither starts nor ends with a blank; and
  the trimmed form is empty exactly when the string holds only blanks.
\<close>

theorem translation_track_body:
  "files (write_vtt_translation segs path w) path =
     Some (Text (spec_track (''WEBVTT'' @ [nl, nl]) seconds_to_vtt_timestamp spec_translation_body segs))
   \<and> files (write_srt_translation segs path w) path =
     Some (Text (spec_track [] seconds_to_srt_timestamp spec_translation_body segs))
   \<and> (\<forall>s \<in> set segs.
        (\<forall>t. seg_translation s = Some t \<and> strip t \<noteq> [] \<longrightarrow> spec_translation_body s = strip t)
      \<and> (\<forall>t. seg_translation s = Some t \<and> strip t = [] \<longrightarrow>
              spec_translation_body s = strip (get_str (seg_text s)))
      \<and> (seg_translation s = None \<longrightarrow> spec_translation_body s = strip (get_str (seg_text s)))
      \<and> (strip (get_str (seg_text s)) \<noteq> [] \<longrightarrow> spec_translation_body s \<noteq> [])
      \<and> (spec_translation_body s \<noteq> [] \<longrightarrow>
            \<not> is_space (hd (spec_translation_body s)) \<and> \<not> is_space (last (spec_translation_body s))))
   \<and> (\<forall>x. \<exists>l r. x = l @ strip x @ r \<and> list_all is_space l \<and> list_all is_space r)
   \<and> (\<forall>x. strip x \<noteq> [] \<longrightarrow> \<not> is_space (hd (strip x)) \<and> \<not> is_space (last (strip x)))
   \<and> (\<forall>x. (strip x = []) = list_all is_space x)"
proof (intro conjI ballI allI impI)
  show "files (write_vtt_translation segs path w) path =
     Some (Text (spec_track (''WEBVTT'' @ [nl, nl]) seconds_to_vtt_timestamp spec_translation_body segs))"
    by (simp add: write_vtt_translation_def files_put_file write_vtt_translation_cues_eq spec_track_def)
  show "files (write_srt_translation segs path w) path =
     Some (Text (spec_track [] seconds_to_srt_timestamp spec_translation_body segs))"
    by (simp add: write_srt_translation_def files_put_file write_srt_translation_cues_eq spec_track_def)
next
  fix s :: segment and t assume "seg_translation s = Some t \<and> strip t \<noteq> []"
  then show "spec_translation_body s = strip t" by (simp add: spec_translation_body_def)
next
  fix s :: segment and t assume "seg_translation s = Some t \<and> strip t = []"
  then show "spec_translation_body s = strip (get_str (seg_text s))"
    by (simp add: spec_translation_body_def)
next
  fix s :: segment assume "seg_translation s = None"
  then show "spec_translation_body s = strip (get_str (seg_text s))"
    by (simp add: spec_translation_body_def)
next
  fix s :: segment assume "strip (get_str (seg_text s)) \<noteq> []"
  then show "spec_translation_body s \<noteq> []"
    by (simp add: spec_translation_body_def split: option.splits)
next
  fix s :: segment assume b: "spec_translation_body s \<noteq> []"
  from spec_translation_body_trimmed [OF b]
  show "\<not> is_space (hd (spec_translation_body s))" and "\<not> is_space (last (spec_translation_body s))"
    by blast+
next
  fix x show "\<exists>l r. x = l @ strip x @ r \<and> list_all is_space l \<and> list_all is_space r"
    by (rule strip_decompose)
next
  fix x assume "strip x \<noteq> []"
  then show "\<not> is_space (hd (strip x))" and "\<not> is_space (last (strip x))"
    by (rule strip_no_outer_space)+
next
  fix x show "(strip x = []) = list_all is_space x"
    by (rule strip_empty_iff)
qed

theorem translation_track_body_witness:
  "spec_translation_body
     \<lparr>seg_start = 0, seg_end = 2, seg_lang = Some ''es'', seg_text = Some '' Hola '',
      seg_translation = Some ''  Hello ''\<rparr> = ''Hello''
   \<and> spec_translation_body
     \<lparr>seg_start = 2, seg_end = 4, seg_lang = Some ''fr'', seg_text = Some ''Bonjour  '',
      seg_translation = Some ''   ''\<rparr> = ''Bonjour''
   \<and> spec_translation_body
     \<lparr>seg_start = 4, seg_end = 6, seg_lang = Some ''fr'', seg_text = Some '' Merci'',
      seg_translation = None\<rparr> = ''Merci''
   \<and> strip ''  Hello '' = ''Hello''
   \<and> strip ''   '' = []
   \<and> files (write_vtt_translation
       [\<lparr>seg_start = 0, seg_end = 2, seg_lang = Some ''es'', seg_text = Some '' Hola '',
         seg_translation = Some ''  Hello ''\<rparr>,
        \<lparr>seg_start = 2, seg_end = 4, seg_lang = Some ''fr'', seg_text = Some ''Bonjour  '',
         seg_translation = Some ''   ''\<rparr>,
        \<lparr>seg_start = 4, seg_end = 6, seg_lang = Some ''fr'', seg_text = Some '' Merci'',
         seg_translation = None\<rparr>]
       ''out.en.vtt'' \<lparr>files = \<lambda>p. None, trace = []\<rparr>) ''out.en.vtt'' =
     Some (Text (''WEBVTT'' @ [nl, nl]
       @ ''1'' @ [nl] @ ''00:00:00.000 --> 00:00:02.000'' @ [nl] @ ''Hello'' @ [nl, nl]
       @ ''2'' @ [nl] @ ''00:00:02.000 --> 00:00:04.000'' @ [nl] @ ''Bonjour'' @ [nl, nl]
       @ ''3'' @ [nl] @ ''00:00:04.000 --> 00:00:06.000'' @ [nl] @ ''Merci'' @ [nl, nl]))
   \<and> files (write_srt_translation
       [\<lparr>seg_start = 0, seg_end = 2, seg_lang = Some ''es'', seg_text = Some '' Hola '',
         seg_translation = Some ''  Hello ''\<rparr>,
        \<lparr>seg_start = 2, seg_end = 4, seg_lang = Some ''fr'', seg_text = Some ''Bonjour  '',
         seg_translation = Some ''   ''\<rparr>,
        \<lparr>seg_start = 4, seg_end = 6, seg_lang = Some ''fr'', seg_text = Some '' Merci'',
         seg_translation = None\<rparr>]
       ''out.en.vtt'' \<lparr>files = \<lambda>p. None, trace = []\<rparr>) ''out.en.vtt'' =
     Some (Text (''1'' @ [nl] @ ''00:00:00,000 --> 00:00:02,000'' @ [nl] @ ''Hello'' @ [nl, nl]
       @ ''2'' @ [nl] @ ''00:00:02,000 --> 00:00:04,000'' @ [nl] @ ''Bonjour'' @ [nl, nl]
       @ ''3'' @ [nl] @ ''00:00:04,000 --> 00:00:06,000'' @ [nl] @ ''Merci'' @ [nl, nl]))"
  using translation_track_body
    [of "[\<lparr>seg_start = 0, seg_end = 2, seg_lang = Some ''es'', seg_text = Some '' Hola '',
         seg_translation = Some ''  Hello ''\<rparr>,
        \<lparr>seg_start = 2, seg_end = 4, seg_lang = Some ''fr'', seg_text = Some ''Bonjour  '',
         seg_translation = Some ''   ''\<rparr>,
        \<lparr>seg_start = 4, seg_end = 6, seg_lang = Some ''fr'', seg_text = Some '' Merci'',
         seg_translation = None\<rparr>]" "''out.en.vtt''" "\<lparr>files = \<lambda>p. None, trace = []\<rparr>"]
  by (simp add: spec_track_def spec_cue_def strip_eval timestamp_eval)

text \<open>
  C2. Each of the four text emitters writes its format's header (\<open>WEBVTT\<close> and a blank
  line for VTT; nothing for SRT, whose format has no header) and then one cue per
  segment, in list order, numbered 1 to N in decimal: the number, the timing line, the
  body and a blank line. For non-negative times the timing line is
  \<open>HH:MM:SS.mmm --> HH:MM:SS.mmm\<close> in a VTT file and \<open>HH:MM:SS,mmm --> HH:MM:SS,mmm\<close>
  in an SRT file, the same digits in both: the fields are decimal digits, at least two
  for the hours, two for minutes and for seconds, at least three for the milliseconds.
\<close>

theorem emitters_structure:
  "files (write_vtt_original segs path w) path =
     Some (Text (spec_track (''WEBVTT'' @ [nl, nl]) seconds_to_vtt_timestamp spec_original_body segs))
   \<and> files (write_vtt_translation segs path w) path =
     Some (Text (spec_track (''WEBVTT'' @ [nl, nl]) seconds_to_vtt_timestamp spec_translation_body segs))
   \<and> files (write_srt_original segs path w) path =
     Some (Text (spec_track [] seconds_to_srt_timestamp spec_original_body segs))
   \<and> files (write_srt_translation segs path w) path =
     Some (Text (spec_track [] seconds_to_srt_timestamp spec_translation_body segs))
   \<and> spec_track header ts body [] = header
   \<and> spec_track header ts body (segs @ [s]) =
       spec_track header ts body segs @ spec_cue ts (Suc (length segs)) s (body s)
   \<and> spec_cue ts n s b =
       str_nat n @ [nl] @ ts (seg_start s) @ '' --> '' @ ts (seg_end s) @ [nl] @ b @ [nl, nl]
   \<and> digits_value (str_nat n) = n
   \<and> list_all is_digit (str_nat n)
   \<and> (0 \<le> seg_start s \<and> 0 \<le> seg_end s \<longrightarrow>
        (\<exists>H1 M1 S1 F1 H2 M2 S2 F2.
            spec_cue seconds_to_vtt_timestamp n s b =
              str_nat n @ [nl] @ H1 @ '':'' @ M1 @ '':'' @ S1 @ ''.'' @ F1 @ '' --> ''
                @ H2 @ '':'' @ M2 @ '':'' @ S2 @ ''.'' @ F2 @ [nl] @ b @ [nl, nl]
          \<and> spec_cue seconds_to_srt_timestamp n s b =
              str_nat n @ [nl] @ H1 @ '':'' @ M1 @ '':'' @ S1 @ '','' @ F1 @ '' --> ''
                @ H2 @ '':'' @ M2 @ '':'' @ S2 @ '','' @ F2 @ [nl] @ b @ [nl, nl]
          \<and> list_all is_digit (H1 @ M1 @ S1 @ F1 @ H2 @ M2 @ S2 @ F2)
          \<and> 2 \<le> length H1 \<and> length M1 = 2 \<and> length S1 = 2 \<and> 3 \<le> length F1
          \<and> 2 \<le> length H2 \<and> length M2 = 2 \<and> length S2 = 2 \<and> 3 \<le> length F2))"
proof (intro conjI impI)
  show "files (write_vtt_original segs path w) path =
     Some (Text (spec_track (''WEBVTT'' @ [nl, nl]) seconds_to_vtt_timestamp spec_original_body segs))"
    by (simp add: write_vtt_original_def files_put_file write_vtt_original_cues_eq spec_track_def)
  show "files (write_vtt_translation segs path w) path =
     Some (Text (spec_track (''WEBVTT'' @ [nl, nl]) seconds_to_vtt_timestamp spec_translation_body segs))"
    by (simp add: write_vtt_translation_def files_put_file write_vtt_translation_cues_eq spec_track_def)
  show "files (write_srt_original segs path w) path =
     Some (Text (spec_track [] seconds_to_srt_timestamp spec_original_body segs))"
    by (simp add: write_srt_original_def files_put_file write_srt_original_cues_eq spec_track_def)
  show "files (write_srt_translation segs path w) path =
     Some (Text (spec_track [] seconds_to_srt_timestamp spec_translation_body segs))"
    by (simp add: write_srt_translation_def files_put_file write_srt_translation_cues_eq spec_track_def)
  show "spec_track header ts body [] = header"
    by (rule spec_track_Nil)
  show "spec_track header ts body (segs @ [s]) =
       spec_track header ts body segs @ spec_cue ts (Suc (length segs)) s (body s)"
    by (rule spec_track_snoc)
  show "spec_cue ts n s b =
       str_nat n @ [nl] @ ts (seg_start s) @ '' --> '' @ ts (seg_end s) @ [nl] @ b @ [nl, nl]"
    by (simp add: spec_cue_def)
  show "digits_value (str_nat n) = n"
    by (rule str_nat_value)
  show "list_all is_digit (str_nat n)"
    by (rule str_nat_all_digits)
next
  assume "0 \<le> seg_start s \<and> 0 \<le> seg_end s"
  then have "0 \<le> seg_start s" and "0 \<le> seg_end s" by blast+
  then show "\<exists>H1 M1 S1 F1 H2 M2 S2 F2.
            spec_cue seconds_to_vtt_timestamp n s b =
              str_nat n @ [nl] @ H1 @ '':'' @ M1 @ '':'' @ S1 @ ''.'' @ F1 @ '' --> ''
                @ H2 @ '':'' @ M2 @ '':'' @ S2 @ ''.'' @ F2 @ [nl] @ b @ [nl, nl]
          \<and> spec_cue seconds_to_srt_timestamp n s b =
              str_nat n @ [nl] @ H1 @ '':'' @ M1 @ '':'' @ S1 @ '','' @ F1 @ '' --> ''
                @ H2 @ '':'' @ M2 @ '':'' @ S2 @ '','' @ F2 @ [nl] @ b @ [nl, nl]
          \<and> list_all is_digit (H1 @ M1 @ S1 @ F1 @ H2 @ M2 @ S2 @ F2)
          \<and> 2 \<le> length H1 \<and> length M1 = 2 \<and> length S1 = 2 \<and> 3 \<le> length F1
          \<and> 2 \<le> length H2 \<and> length M2 = 2 \<and> length S2 = 2 \<and> 3 \<le> length F2"
    by (rule timing_line_shape)
qed

theorem emitters_structure_witness:
  "0 \<le> seg_start \<lparr>seg_start = 2.25, seg_end = 3661.5, seg_lang = Some ''fr'',
        seg_text = Some ''Bonjour'', seg_translation = None\<rparr>
   \<and> 0 \<le> seg_end \<lparr>seg_start = 2.25, seg_end = 3661.5, seg_lang = Some ''fr'',
        seg_text = Some ''Bonjour'', seg_translation = None\<rparr>
   \<and> files (write_vtt_original
       [\<lparr>seg_start = 0.5, seg_end = 2.25, seg_lang = Some ''es'', seg_text = Some ''Hola'',
         seg_translation = Some ''Hello''\<rparr>,
        \<lparr>seg_start = 2.25, seg_end = 3661.5, seg_lang = Some ''fr'', seg_text = Some ''Bonjour'',
         seg_translation = None\<rparr>]
       ''out.vtt'' empty_world) ''out.vtt'' =
     Some (Text (''WEBVTT'' @ [nl, nl]
       @ ''1'' @ [nl] @ ''00:00:00.500 --> 00:00:02.250'' @ [nl] @ ''[es] Hola'' @ [nl, nl]
       @ ''2'' @ [nl] @ ''00:00:02.250 --> 01:01:01.500'' @ [nl] @ ''[fr] Bonjour'' @ [nl, nl]))
   \<and> files (write_vtt_translation
       [\<lparr>seg_start = 0.5, seg_end = 2.25, seg_lang = Some ''es'', seg_text = Some ''Hola'',
         seg_translation = Some ''Hello''\<rparr>,
        \<lparr>seg_start = 2.25, seg_end = 3661.5, seg_lang = Some ''fr'', seg_text = Some ''Bonjour'',
         seg_translation = None\<rparr>]
       ''out.vtt'' empty_world) ''out.vtt'' =
     Some (Text (''WEBVTT'' @ [nl, nl]
       @ ''1'' @ [nl] @ ''00:00:00.500 --> 00:00:02.250'' @ [nl] @ ''Hello'' @ [nl, nl]
       @ ''2'' @ [nl] @ ''00:00:02.250 --> 01:01:01.500'' @ [nl] @ ''Bonjour'' @ [nl, nl]))
   \<and> files (write_srt_original
       [\<lparr>seg_start = 0.5, seg_end = 2.25, seg_lang = Some ''es'', seg_text = Some ''Hola'',
         seg_translation = Some ''Hello''\<rparr>,
        \<lparr>seg_start = 2.25, seg_end = 3661.5, seg_lang = Some ''fr'', seg_text = Some ''Bonjour'',
         seg_translation = None\<rparr>]
       ''out.vtt'' empty_world) ''out.vtt'' =
     Some (Text (''1'' @ [nl] @ ''00:00:00,500 --> 00:00:02,250'' @ [nl] @ ''[es] Hola'' @ [nl, nl]
       @ ''2'' @ [nl] @ ''00:00:02,250 --> 01:01:01,500'' @ [nl] @ ''[fr] Bonjour'' @ [nl, nl]))
   \<and> files (write_srt_translation
       [\<lparr>seg_start = 0.5, seg_end = 2.25, seg_lang = Some ''es'', seg_text = Some ''Hola'',
         seg_translation = Some ''Hello''\<rparr>,
        \<lparr>seg_start = 2.25, seg_end = 3661.5, seg_lang = Some ''fr'', seg_text = Some ''Bonjour'',
         seg_translation = None\<rparr>]
       ''out.vtt'' empty_world) ''out.vtt'' =
     Some (Text (''1'' @ [nl] @ ''00:00:00,500 --> 00:00:02,250'' @ [nl] @ ''Hello'' @ [nl, nl]
       @ ''2'' @ [nl] @ ''00:00:02,250 --> 01:01:01,500'' @ [nl] @ ''Bonjour'' @ [nl, nl]))
   \<and> spec_cue seconds_to_srt_timestamp 2
        \<lparr>seg_start = 2.25, seg_end = 3661.5, seg_lang = Some ''fr'',
          seg_text = Some ''Bonjour'', seg_translation = None\<rparr> ''Bonjour''
       = ''2'' @ [nl] @ ''00:00:02,250 --> 01:01:01,500'' @ [nl] @ ''Bonjour'' @ [nl, nl]"
  using emitters_structure
    [where segs = "[\<lparr>seg_start = 0.5, seg_end = 2.25, seg_lang = Some ''es'', seg_text = Some ''Hola'',
         seg_translation = Some ''Hello''\<rparr>,
        \<lparr>seg_start = 2.25, seg_end = 3661.5, seg_lang = Some ''fr'', seg_text = Some ''Bonjour'',
         seg_translation = None\<rparr>]"
       and path = "''out.vtt''" and w = empty_world and header = "[]"
       and ts = seconds_to_srt_timestamp and body = spec_original_body
       and s = "\<lparr>seg_start = 2.25, seg_end = 3661.5, seg_lang = Some ''fr'',
          seg_text = Some ''Bonjour'', seg_translation = None\<rparr>"
       and n = 2 and b = "''Bonjour''"]
  by (simp add: spec_track_def spec_cue_def spec_original_body_def spec_translation_body_def
        strip_eval timestamp_eval)

text \<open>
  C4. The language classifier (\<^verbatim>\<open>detect_lang_of_text(text) if text else ""\<close>): on the
  empty text it returns the empty string and calls nothing (the world is unchanged); on
  a non-empty text it calls the detector once and returns the empty string when the
  detector raises \<^verbatim>\<open>LangDetectException\<close>, \<open>pt\<close> when the detected code starts with
  \<open>pt\<close>, \<open>es\<close> when it starts with \<open>es\<close>, and the detected code unchanged otherwise.
  The classifier's result is a string in every case: a detection failure is the empty
  string, not an exception.
\<close>

theorem classifier_contract:
  "classify_text E [] w = ([], w)
   \<and> (txt \<noteq> [] \<longrightarrow>
        snd (classify_text E txt w) = log_event (Detect txt) w
      \<and> (detect E txt = Inl LangDetectException \<longrightarrow> fst (classify_text E txt w) = [])
      \<and> (\<forall>lang. detect E txt = Inr lang \<and> startswith lang ''pt'' \<longrightarrow>
             fst (classify_text E txt w) = ''pt'')
      \<and> (\<forall>lang. detect E txt = Inr lang \<and> \<not> startswith lang ''pt'' \<and> startswith lang ''es'' \<longrightarrow>
             fst (classify_text E txt w) = ''es'')
      \<and> (\<forall>lang. detect E txt = Inr lang \<and> \<not> startswith lang ''pt'' \<and> \<not> startswith lang ''es'' \<longrightarrow>
             fst (classify_text E txt w) = lang))"
  by (cases "detect E txt")
     (auto simp: classify_text_def detect_lang_of_text_def Let_def split: detect_error.splits)

theorem classifier_contract_witness:
  "classify_text zh_env [] demo_world = ([], demo_world)
   \<and> ''Bom dia'' \<noteq> []
   \<and> trace (snd (classify_text (zh_env\<lparr>detect := (\<lambda>t. Inr ''pt'')\<rparr>) ''Bom dia'' demo_world))
       = [Detect ''Bom dia'']
   \<and> fst (classify_text (zh_env\<lparr>detect := (\<lambda>t. Inr ''pt'')\<rparr>) ''Bom dia'' demo_world) = ''pt''
   \<and> fst (classify_text (zh_env\<lparr>detect := (\<lambda>t. Inl LangDetectException)\<rparr>) ''123'' demo_world) = []"
  using classifier_contract [of zh_env demo_world "''Bom dia''"]
    classifier_contract [of "zh_env\<lparr>detect := (\<lambda>t. Inr ''pt'')\<rparr>" demo_world "''Bom dia''"]
    classifier_contract [of "zh_env\<lparr>detect := (\<lambda>t. Inl LangDetectException)\<rparr>" demo_world "''123''"]
  by (simp add: startswith_def trace_log_event demo_world_def)

text \<open>
  C9. When the video path names no existing file, \<^verbatim>\<open>main\<close> prints the message and
  returns: nothing else is called (no model loading, no extraction), no file is written
  or changed, and the process exits with status 0.
\<close>

theorem missing_video_aborts:
  assumes "files w (video a) = None"
  shows "main E a w = (None, log_event (Print (MsgVideoNotFound (video a))) w)
       \<and> files (snd (main E a w)) = files w
       \<and> trace (snd (main E a w)) = trace w @ [Print (MsgVideoNotFound (video a))]
       \<and> exit_status (fst (main E a w)) = 0"
  using assms by (simp add: main_def exit_status_def trace_log_event files_log_event)

theorem missing_video_aborts_witness:
  "files demo_world (video (demo_args\<lparr>video := ''absent.mp4''\<rparr>)) = None
   \<and> trace (snd (main zh_env (demo_args\<lparr>video := ''absent.mp4''\<rparr>) demo_world))
       = [Print (MsgVideoNotFound ''absent.mp4'')]
   \<and> files (snd (main zh_env (demo_args\<lparr>video := ''absent.mp4''\<rparr>) demo_world)) = files demo_world
   \<and> exit_status (fst (main zh_env (demo_args\<lparr>video := ''absent.mp4''\<rparr>) demo_world)) = 0"
proof -
  have h: "files demo_world (video (demo_args\<lparr>video := ''absent.mp4''\<rparr>)) = None"
    by (simp add: demo_world_def demo_args_def)
  show ?thesis
    using h missing_video_aborts [OF h, of zh_env]
    by (simp add: demo_world_def demo_args_def trace_log_event files_log_event exit_status_def)
qed



text \<open>
  C8, as stated: the classifier's output, and so the \<open>lang\<close> field, is always empty or a
  two-letter code. This fails: a detected code that starts with neither \<open>pt\<close> nor
  \<open>es\<close> is returned unchanged, whatever its length, and the detector answers
  \<open>zh-cn\<close> for Chinese text; the record built for the segment then has \<open>zh-cn\<close> as
  its \<open>lang\<close>.
\<close>

theorem classifier_two_letter_counterexample:
  "fst (classify_text zh_env [CHR 0xE4, CHR 0xBD, CHR 0xA0, CHR 0xE5, CHR 0xA5, CHR 0xBD] demo_world)
     = ''zh-cn''
   \<and> length (fst (classify_text zh_env [CHR 0xE4, CHR 0xBD, CHR 0xA0, CHR 0xE5, CHR 0xA5, CHR 0xBD]
                  demo_world)) = 5
   \<and> seg_lang (fst (process_segment zh_env demo_args ''/tmp/td'' ''/tmp/td/extracted_audio.wav''
        (Some ''zh'') 0
        \<lparr>raw_start = Some 0, raw_end = Some 2,
          raw_text = Some [CHR 0xE4, CHR 0xBD, CHR 0xA0, CHR 0xE5, CHR 0xA5, CHR 0xBD]\<rparr> demo_world))
     = Some ''zh-cn''"
  by (simp add: process_segment_fields choose_lang_def classify_text_def detect_lang_of_text_def
        zh_env_def startswith_def strip_eval Let_def)

text \<open>
  C8, amended: the classifier's output is the empty string, \<open>pt\<close>, \<open>es\<close>, or the
  detected code unchanged; it is empty or two letters long whenever every code the
  detector returns for the text is two letters long or starts with \<open>pt\<close> or \<open>es\<close>.
  The record's \<open>lang\<close> field is the classifier's output when that is non-empty;
  otherwise it is the whole file's language, or the empty string when there is none. So
  the field is empty or two letters long whenever the detector's code is as above and the
  whole file's language is absent, empty or two letters long.
\<close>

theorem classifier_output_amended:
  fixes E :: env and a :: args and seg :: raw_segment and w :: world
    and td audio_file :: string and overall_lang :: "string option" and idx :: nat
  defines "c \<equiv> fst (classify_text E (strip (get_str (raw_text seg))) w)"
    and "D \<equiv> fst (process_segment E a td audio_file overall_lang idx seg w)"
  shows
   "(fst (classify_text E tx w) = [] \<or> fst (classify_text E tx w) = ''pt''
      \<or> fst (classify_text E tx w) = ''es'' \<or> detect E tx = Inr (fst (classify_text E tx w)))
   \<and> ((\<forall>lang. detect E tx = Inr lang \<longrightarrow>
          length lang = 2 \<or> startswith lang ''pt'' \<or> startswith lang ''es'')
        \<longrightarrow> length (fst (classify_text E tx w)) = 0 \<or> length (fst (classify_text E tx w)) = 2)
   \<and> seg_lang D = Some (choose_lang c overall_lang)
   \<and> (c \<noteq> [] \<longrightarrow> seg_lang D = Some c)
   \<and> (c = [] \<and> overall_lang = None \<longrightarrow> seg_lang D = Some [])
   \<and> (\<forall>l. c = [] \<and> overall_lang = Some l \<longrightarrow> seg_lang D = Some l)
   \<and> ((\<forall>lang. detect E (strip (get_str (raw_text seg))) = Inr lang \<longrightarrow>
           length lang = 2 \<or> startswith lang ''pt'' \<or> startswith lang ''es'')
        \<and> (\<forall>l. overall_lang = Some l \<longrightarrow> length l = 0 \<or> length l = 2)
        \<longrightarrow> (\<exists>x. seg_lang D = Some x \<and> (length x = 0 \<or> length x = 2)))"
proof (intro conjI impI allI)
  have lang: "seg_lang D = Some (choose_lang c overall_lang)"
    unfolding D_def c_def by (rule process_segment_fields)
  show "fst (classify_text E tx w) = [] \<or> fst (classify_text E tx w) = ''pt''
      \<or> fst (classify_text E tx w) = ''es'' \<or> detect E tx = Inr (fst (classify_text E tx w))"
    by (cases "detect E tx")
       (auto simp: classify_text_def detect_lang_of_text_def Let_def split: detect_error.splits)
  show "seg_lang D = Some (choose_lang c overall_lang)" by (rule lang)
  {
    assume "\<forall>lang. detect E tx = Inr lang \<longrightarrow>
          length lang = 2 \<or> startswith lang ''pt'' \<or> startswith lang ''es''"
    then show "length (fst (classify_text E tx w)) = 0 \<or> length (fst (classify_text E tx w)) = 2"
      by (rule classify_text_two_letter)
  }
  {
    assume "c \<noteq> []"
    then show "seg_lang D = Some c" by (simp add: lang choose_lang_cases)
  }
  {
    assume "c = [] \<and> overall_lang = None"
    then show "seg_lang D = Some []" by (simp add: lang choose_lang_cases)
  }
  {
    fix l assume "c = [] \<and> overall_lang = Some l"
    then show "seg_lang D = Some l" by (simp add: lang choose_lang_cases)
  }
  {
    assume h: "(\<forall>lang. detect E (strip (get_str (raw_text seg))) = Inr lang \<longrightarrow>
           length lang = 2 \<or> startswith lang ''pt'' \<or> startswith lang ''es'')
        \<and> (\<forall>l. overall_lang = Some l \<longrightarrow> length l = 0 \<or> length l = 2)"
    then have "\<forall>lang. detect E (strip (get_str (raw_text seg))) = Inr lang \<longrightarrow>
           length lang = 2 \<or> startswith lang ''pt'' \<or> startswith lang ''es''" by blast
    then have c2: "length c = 0 \<or> length c = 2"
      unfolding c_def by (rule classify_text_two_letter)
    from h have o: "\<forall>l. overall_lang = Some l \<longrightarrow> length l = 0 \<or> length l = 2" by blast
    have "length (choose_lang c overall_lang) = 0 \<or> length (choose_lang c overall_lang) = 2"
    proof (cases "c = []")
      case False
      with c2 show ?thesis by (simp add: choose_lang_cases)
    next
      case True
      with o show ?thesis by (cases overall_lang) (auto simp: choose_lang_cases)
    qed
    with lang show "\<exists>x. seg_lang D = Some x \<and> (length x = 0 \<or> length x = 2)" by blast
  }
qed

theorem classifier_output_amended_witness:
  "fst (classify_text (zh_env\<lparr>detect := (\<lambda>t. Inr ''en'')\<rparr>) ''Good morning'' demo_world) = ''en''
   \<and> length (fst (classify_text (zh_env\<lparr>detect := (\<lambda>t. Inr ''en'')\<rparr>) ''Good morning'' demo_world)) = 2
   \<and> seg_lang (fst (process_segment (zh_env\<lparr>detect := (\<lambda>t. Inr ''en'')\<rparr>) demo_args ''/tmp/td''
        ''/tmp/td/extracted_audio.wav'' (Some ''es'') 0
        \<lparr>raw_start = Some 0, raw_end = Some 2, raw_text = Some '' Good morning''\<rparr> demo_world))
       = Some ''en''
   \<and> fst (classify_text (zh_env\<lparr>detect := (\<lambda>t. Inl LangDetectException)\<rparr>) ''Good morning'' demo_world) = []
   \<and> seg_lang (fst (process_segment (zh_env\<lparr>detect := (\<lambda>t. Inl LangDetectException)\<rparr>) demo_args ''/tmp/td''
        ''/tmp/td/extracted_audio.wav'' (Some ''es'') 0
        \<lparr>raw_start = Some 0, raw_end = Some 2, raw_text = Some '' Good morning''\<rparr> demo_world))
       = Some ''es''
   \<and> seg_lang (fst (process_segment (zh_env\<lparr>detect := (\<lambda>t. Inl LangDetectException)\<rparr>) demo_args ''/tmp/td''
        ''/tmp/td/extracted_audio.wav'' None 0
        \<lparr>raw_start = Some 0, raw_end = Some 2, raw_text = Some '' Good morning''\<rparr> demo_world))
       = Some []"
  using classifier_output_amended
      [where E = "zh_env\<lparr>detect := (\<lambda>t. Inr ''en'')\<rparr>" and tx = "''Good morning''" and w = demo_world
         and a = demo_args and td = "''/tmp/td''" and audio_file = "''/tmp/td/extracted_audio.wav''"
         and overall_lang = "Some ''es''" and idx = 0
         and seg = "\<lparr>raw_start = Some 0, raw_end = Some 2, raw_text = Some '' Good morning''\<rparr>"]
    classifier_output_amended
      [where E = "zh_env\<lparr>detect := (\<lambda>t. Inl LangDetectException)\<rparr>" and tx = "''Good morning''"
         and w = demo_world
         and a = demo_args and td = "''/tmp/td''" and audio_file = "''/tmp/td/extracted_audio.wav''"
         and overall_lang = "Some ''es''" and idx = 0
         and seg = "\<lparr>raw_start = Some 0, raw_end = Some 2, raw_text = Some '' Good morning''\<rparr>"]
    classifier_output_amended
      [where E = "zh_env\<lparr>detect := (\<lambda>t. Inl LangDetectException)\<rparr>" and tx = "''Good morning''"
         and w = demo_world
         and a = demo_args and td = "''/tmp/td''" and audio_file = "''/tmp/td/extracted_audio.wav''"
         and overall_lang = None and idx = 0
         and seg = "\<lparr>raw_start = Some 0, raw_end = Some 2, raw_text = Some '' Good morning''\<rparr>"]
  by (simp add: classify_text_def detect_lang_of_text_def choose_lang_def startswith_def strip_eval Let_def)

text \<open>
  C5. For every segment: when refinement is not enabled, or the language chosen for the
  segment is neither \<open>pt\<close> nor \<open>es\<close> (a segment classified \<open>fr\<close>, or one with no
  language), processing the segment makes no call of the refiner: no slice is cut into
  the segment's refinement file and no transcription runs on that file or with a forced
  language.
\<close>

theorem refinement_gating:
  assumes "\<not> refine_per_segment a
           \<or> (seg_lang (fst (process_segment E a td audio_file overall_lang idx seg w)) \<noteq> Some ''pt''
              \<and> seg_lang (fst (process_segment E a td audio_file overall_lang idx seg w)) \<noteq> Some ''es'')"
  shows "adds_only (\<lambda>e. \<not> refiner_event (path_join td (''segment_'' @ str_nat (idx + 1) @ ''.wav'')) e) w
           (snd (process_segment E a td audio_file overall_lang idx seg w))"
proof -
  let ?d = "fst (process_segment E a td audio_file overall_lang idx seg w)"
  let ?txt = "strip (get_str (raw_text seg))"
  let ?c = "classify_text E ?txt w"
  let ?lang = "choose_lang (fst ?c) overall_lang"
  let ?Q = "\<lambda>e. \<not> refiner_event (path_join td (''segment_'' @ str_nat (idx + 1) @ ''.wav'')) e"
  have "seg_lang ?d = Some ?lang" by (rule process_segment_fields)
  with assms have "\<not> (refine_per_segment a \<and> (?lang = ''pt'' \<or> ?lang = ''es''))" by auto
  then have r: "refine_block E a td audio_file idx (seg_start ?d) (seg_end ?d) ?lang ?txt (snd ?c)
                  = (?txt, snd ?c)"
    by (rule refine_block_skipped)
  have s: "snd (process_segment E a td audio_file overall_lang idx seg w)
             = snd (translate_block E a td audio_file idx (seg_start ?d) (seg_end ?d) (snd ?c))"
    by (subst process_segment_snd) (simp add: r)
  have "adds_only ?Q w (snd ?c)" by (rule classify_text_adds)
  moreover have "adds_only ?Q (snd ?c)
      (snd (translate_block E a td audio_file idx (seg_start ?d) (seg_end ?d) (snd ?c)))"
    by (rule translate_block_adds)
  ultimately show ?thesis unfolding s by (rule adds_only_trans)
qed

theorem refinement_gating_witness:
  "refine_per_segment demo_args
   \<and> seg_lang (fst (process_segment french_env demo_args ''/tmp/td'' ''/tmp/td/extracted_audio.wav''
        (Some ''fr'') 0 \<lparr>raw_start = Some 0, raw_end = Some 2, raw_text = Some ''Bonjour''\<rparr> empty_world))
       = Some ''fr''
   \<and> trace (snd (process_segment french_env demo_args ''/tmp/td'' ''/tmp/td/extracted_audio.wav''
        (Some ''fr'') 0 \<lparr>raw_start = Some 0, raw_end = Some 2, raw_text = Some ''Bonjour''\<rparr> empty_world))
       = [Detect ''Bonjour'',
          FfmpegSlice ''/tmp/td/extracted_audio.wav'' ''/tmp/td/segment_1_t.wav'' 0 2,
          Whisper ''/tmp/td/segment_1_t.wav'' None (Some ''translate''),
          Remove ''/tmp/td/segment_1_t.wav'']
   \<and> adds_only (\<lambda>e. \<not> refiner_event ''/tmp/td/segment_1.wav'' e) empty_world
        (snd (process_segment french_env demo_args ''/tmp/td'' ''/tmp/td/extracted_audio.wav''
           (Some ''fr'') 0 \<lparr>raw_start = Some 0, raw_end = Some 2, raw_text = Some ''Bonjour''\<rparr> empty_world))"
  using refinement_gating [of demo_args french_env "''/tmp/td''" "''/tmp/td/extracted_audio.wav''"
      "Some ''fr''" 0 "\<lparr>raw_start = Some 0, raw_end = Some 2, raw_text = Some ''Bonjour''\<rparr>" empty_world]
  by (simp add: run_eval french_env_def demo_args_def empty_world_def str_nat.simps digit_char_def)



text \<open>
  C7. In every record the loop builds, the translation is absent or a non-empty string
  with no whitespace at either end, never the empty string; this is the list handed to
  the emitters and written as the JSON document.
\<close>

theorem translation_never_empty:
  "list_all translation_ok (fst (process_segments E a td audio_file overall_lang idx segs [] w))
   \<and> list_all translation_ok (processed_segments E a)
   \<and> (\<forall>d. translation_ok d \<longrightarrow> seg_translation d \<noteq> Some [])
   \<and> (files w (video a) \<noteq> None
        \<and> exit_ok (ffmpeg_full E (video a) (path_join (tmpdir E) ''extracted_audio.wav''))
        \<and> outputs_safe E a \<longrightarrow>
        files (snd (main E a w)) (out_prefix a @ ''.json'') = Some (Json (processed_segments E a)))"
proof (intro conjI allI impI)
  show "list_all translation_ok (fst (process_segments E a td audio_file overall_lang idx segs [] w))"
    by (rule process_segments_translation_ok) simp
  show "list_all translation_ok (processed_segments E a)"
    unfolding processed_segments_def by (rule process_segments_translation_ok) simp
next
  fix d :: segment
  assume "translation_ok d"
  then show "seg_translation d \<noteq> Some []"
    by (auto simp: translation_ok_def)
next
  assume h: "files w (video a) \<noteq> None
        \<and> exit_ok (ffmpeg_full E (video a) (path_join (tmpdir E) ''extracted_audio.wav''))
        \<and> outputs_safe E a"
  then have h1: "files w (video a) \<noteq> None"
    and h2: "exit_ok (ffmpeg_full E (video a) (path_join (tmpdir E) ''extracted_audio.wav''))"
    and h3: "outputs_safe E a" by blast+
  show "files (snd (main E a w)) (out_prefix a @ ''.json'') = Some (Json (processed_segments E a))"
    by (rule main_outputs(6) [OF h1 h2 h3])
qed

theorem translation_never_empty_witness:
  "processed_segments french_env demo_args =
     [\<lparr>seg_start = 0, seg_end = 2, seg_lang = Some ''fr'', seg_text = Some ''Bonjour'',
       seg_translation = Some ''Good morning''\<rparr>]
   \<and> translation_ok \<lparr>seg_start = 0, seg_end = 2, seg_lang = Some ''fr'', seg_text = Some ''Bonjour'',
       seg_translation = Some ''Good morning''\<rparr>
   \<and> list_all translation_ok (processed_segments failing_env demo_args)
   \<and> files (snd (main french_env demo_args demo_world)) ''out.json'' =
        Some (Json [\<lparr>seg_start = 0, seg_end = 2, seg_lang = Some ''fr'', seg_text = Some ''Bonjour'',
                      seg_translation = Some ''Good morning''\<rparr>])"
proof -
  note th = translation_never_empty
    [where E = french_env and a = demo_args and w = demo_world and td = "''/tmp/td''"
       and audio_file = "''/tmp/td/extracted_audio.wav''" and overall_lang = "Some ''fr''"
       and idx = 0 and segs = "[]"]
  note th2 = translation_never_empty
    [where E = failing_env and a = demo_args and w = demo_world and td = "''/tmp/td''"
       and audio_file = "''/tmp/td/extracted_audio.wav''" and overall_lang = "Some ''es''"
       and idx = 0 and segs = "[]"]
  have px: "out_prefix demo_args = ''out''" by (simp add: demo_args_def)
  have c2: "translation_ok \<lparr>seg_start = 0, seg_end = 2, seg_lang = Some ''fr'', seg_text = Some ''Bonjour'',
       seg_translation = Some ''Good morning''\<rparr>"
    using th [THEN conjunct2, THEN conjunct1] unfolding french_env_processed by simp
  have c3: "list_all translation_ok (processed_segments failing_env demo_args)"
    using th2 by (rule conjunct2 [THEN conjunct1])
  have c4: "files (snd (main french_env demo_args demo_world)) ''out.json'' =
        Some (Json [\<lparr>seg_start = 0, seg_end = 2, seg_lang = Some ''fr'', seg_text = Some ''Bonjour'',
                      seg_translation = Some ''Good morning''\<rparr>])"
    using th [THEN conjunct2, THEN conjunct2, THEN conjunct2, THEN mp, OF demo_run_ok(2)]
    unfolding french_env_processed px by simp
  show ?thesis
    by (intro conjI) (fact french_env_processed c2 c3 c4)+
qed

end
